theory Spec2Isabelle
  imports Main "HOL-Library.Word" "HOL-Library.Signed_Division"
begin

unbundle bit_operations_syntax

section \<open>Data model of \<^verbatim>\<open>src/main.hpp\<close>\<close>

text \<open>
  The header is a template over the dimension \<^verbatim>\<open>uint8_t D\<close> and the index type
  \<^verbatim>\<open>Itype\<close>. \<^verbatim>\<open>D\<close> is a \<open>nat\<close> parameter here (in \<^verbatim>\<open>D + 1\<close> it is promoted to
  \<^verbatim>\<open>int\<close>, so nothing wraps), and \<^verbatim>\<open>Itype\<close> is a signed machine integer \<open>'i word\<close>
  read through \<open>sint\<close>. \<^verbatim>\<open>std::array\<close> values are lists of the template's length.
\<close>

type_synonym 'i Coord = "'i word list"  \<comment> \<open>\<^verbatim>\<open>std::array<Itype, D + 1>\<close>\<close>
type_synonym 'i Arr = "'i word list"  \<comment> \<open>\<^verbatim>\<open>std::array<Itype, D>\<close>\<close>
type_synonym InOutKey = "64 word list"  \<comment> \<open>\<^verbatim>\<open>std::array<uint64_t, 5>\<close>\<close>
type_synonym 'i InOutMapPerKernel = "'i word list list"  \<comment> \<open>\<^verbatim>\<open>std::vector<std::vector<Itype>>\<close>\<close>

subsection \<open>\<^verbatim>\<open>hash_vec\<close> (lines 33-61)\<close>

text \<open>
  \<^verbatim>\<open>for (uint64_t x : p)\<close> converts every element to \<^verbatim>\<open>uint64_t\<close>: a signed
  \<^verbatim>\<open>Itype\<close> is sign-extended (its value modulo \<open>2^64\<close>); a \<^verbatim>\<open>uint64_t\<close> element of an
  \<^verbatim>\<open>InOutKey\<close> is left as it is, which is what \<open>scast\<close> does at width 64.
\<close>

definition uint64_of :: "'i::len word \<Rightarrow> 64 word" where
  "uint64_of x = scast x"

text \<open>The loop body: \<^verbatim>\<open>hash *= 1099511628211; hash ^= x;\<close> on \<^verbatim>\<open>uint64_t\<close>.\<close>

fun hash_loop :: "64 word \<Rightarrow> 64 word list \<Rightarrow> 64 word" where
  "hash_loop hash [] = hash"
| "hash_loop hash (x # xs) = hash_loop ((hash * 1099511628211) XOR x) xs"

definition hash_vec :: "'i::len word list \<Rightarrow> 64 word" where
  "hash_vec p = hash_loop 14695981039346656037 (map uint64_of p)"

definition ArrHash :: "'i::len Arr \<Rightarrow> 64 word" where
  "ArrHash p = hash_vec p"

definition InOutKeyHash :: "InOutKey \<Rightarrow> 64 word" where
  "InOutKeyHash p = hash_vec p"

definition CoordHash :: "'i::len Coord \<Rightarrow> 64 word" where
  "CoordHash p = hash_vec p"

subsection \<open>\<^verbatim>\<open>CoordIndexMap\<close> (lines 63-79)\<close>

text \<open>
  \<^verbatim>\<open>google::dense_hash_map\<close> is a library type: its contents are a finite map, and it
  remembers the empty key given to \<^verbatim>\<open>set_empty_key\<close> (none before that call).
\<close>

record ('k, 'v) dense_hash_map =
  entries :: "'k \<rightharpoonup> 'v"
  empty_key_hm :: "'k option"

definition dense_hash_map_new :: "('k, 'v) dense_hash_map" where
  "dense_hash_map_new = \<lparr>entries = Map.empty, empty_key_hm = None\<rparr>"

definition set_empty_key :: "'k \<Rightarrow> ('k, 'v) dense_hash_map \<Rightarrow> ('k, 'v) dense_hash_map" where
  "set_empty_key k m = m\<lparr>empty_key_hm := Some k\<rparr>"

record (overloaded) 'i CoordIndexMap =
  map_hm :: "('i Coord, 64 word) dense_hash_map"  \<comment> \<open>the member \<^verbatim>\<open>map\<close>\<close>

text \<open>\<^verbatim>\<open>std::numeric_limits<Itype>::max()\<close> of a signed \<^verbatim>\<open>Itype\<close>.\<close>

definition numeric_limits_max :: "'i::len word" where
  "numeric_limits_max = word_of_int (2 ^ (LENGTH('i) - 1) - 1)"

text \<open>
  The constructor's loop \<^verbatim>\<open>for (int i = 0; i < D + 1; ++i) empty_key[i] = -max\<close>.
  The array \<^verbatim>\<open>empty_key\<close> is declared without an initialiser; the loop starts here
  from an array of \<open>D + 1\<close> zeros, and \<open>fill_empty_key_any\<close> below shows that the
  starting contents do not matter.
\<close>

function fill_empty_key :: "nat \<Rightarrow> nat \<Rightarrow> 'i::len Coord \<Rightarrow> 'i Coord" where
  "fill_empty_key D i empty_key =
     (if i < D + 1
      then fill_empty_key D (i + 1) (empty_key[i := - numeric_limits_max])
      else empty_key)"
  by pat_completeness auto
termination
  by (relation "measure (\<lambda>(D, i, k). D + 1 - i)") auto

declare fill_empty_key.simps [simp del]

definition CoordIndexMap_new :: "nat \<Rightarrow> 'i::len CoordIndexMap" where
  "CoordIndexMap_new D =
     \<lparr>map_hm = set_empty_key (fill_empty_key D 0 (replicate (D + 1) 0)) dense_hash_map_new\<rparr>"

definition size_cim :: "'i::len CoordIndexMap \<Rightarrow> nat" where
  "size_cim m = card (dom (entries (map_hm m)))"

subsection \<open>\<^verbatim>\<open>Metadata\<close> (lines 81-106)\<close>

record (overloaded) 'i Metadata =
  coord2inds :: "64 word \<rightharpoonup> 'i CoordIndexMap"
  in_maps :: "InOutKey \<rightharpoonup> 'i InOutMapPerKernel"
  out_maps :: "InOutKey \<rightharpoonup> 'i InOutMapPerKernel"
  cuhandle :: "nat option"  \<comment> \<open>\<open>None\<close> is \<^verbatim>\<open>NULL\<close>\<close>
  cushandle :: "nat option"

definition Metadata_new :: "'i::len Metadata" where
  "Metadata_new =
     \<lparr>coord2inds = Map.empty, in_maps = Map.empty, out_maps = Map.empty,
      cuhandle = None, cushandle = None\<rparr>"

definition clear :: "'i::len Metadata \<Rightarrow> 'i Metadata" where
  "clear md = md\<lparr>coord2inds := Map.empty, in_maps := Map.empty, out_maps := Map.empty\<rparr>"

text \<open>
  \<^verbatim>\<open>operator[]\<close> of \<^verbatim>\<open>std::map\<close>: a reference to the stored value; a missing key is
  first inserted with a default-constructed value.
\<close>

definition subscript :: "('k \<rightharpoonup> 'v) \<Rightarrow> 'k \<Rightarrow> 'v \<Rightarrow> 'v \<times> ('k \<rightharpoonup> 'v)" where
  "subscript m k dflt = (case m k of Some v \<Rightarrow> (v, m) | None \<Rightarrow> (dflt, m(k \<mapsto> dflt)))"

section \<open>The macros (lines 108-235)\<close>

text \<open>
  \<^verbatim>\<open>INITIALIZE_AND_REFERENCE\<close> (lines 113-120) allocates the scope on first use and
  creates the two library handles. The macros below start from the scope it yields and
  read neither handle.
\<close>

subsection \<open>What the macros use and is declared elsewhere\<close>

text \<open>
  The coordinate and kernel-map builders and \<^verbatim>\<open>ComputeOutPixelDist\<close> are called by the
  macros and defined in other files. They are parameters of the model: every theorem
  below holds for all of them. They are taken to return normally and to leave the maps
  they receive untouched.
\<close>

record (overloaded) 'i externs =
  ComputeOutPixelDist :: "'i Arr \<Rightarrow> 'i Arr \<Rightarrow> bool \<Rightarrow> 'i Arr"
  CreateOutputCoordIndexMap :: "'i CoordIndexMap \<Rightarrow> 'i Arr \<Rightarrow> 'i Arr \<Rightarrow> 'i CoordIndexMap"
  CreateOutputOriginCoordIndexMap :: "'i CoordIndexMap \<Rightarrow> int \<Rightarrow> 'i CoordIndexMap"
  CreateInOutPerKernel ::
    "'i CoordIndexMap \<Rightarrow> 'i CoordIndexMap \<Rightarrow> 'i Arr \<Rightarrow> 'i Arr \<Rightarrow> 'i Arr \<Rightarrow>
     'i word \<Rightarrow> 'i word list \<Rightarrow> 'i word \<Rightarrow> 'i InOutMapPerKernel \<times> 'i InOutMapPerKernel"
  CreateInOutPerKernelTranspose ::
    "'i CoordIndexMap \<Rightarrow> 'i CoordIndexMap \<Rightarrow> 'i Arr \<Rightarrow> 'i Arr \<Rightarrow> 'i Arr \<Rightarrow>
     'i word \<Rightarrow> 'i word list \<Rightarrow> 'i word \<Rightarrow> 'i InOutMapPerKernel \<times> 'i InOutMapPerKernel"
  CreateGlobalReductionInOutMap ::
    "'i CoordIndexMap \<Rightarrow> 'i CoordIndexMap \<Rightarrow> 'i InOutMapPerKernel \<times> 'i InOutMapPerKernel"

text \<open>
  Modelled from the spec: \<^verbatim>\<open>ToArray<D, Itype>\<close> (lines 131-134, 197) is not in src.
  Section 6 of the spec has the entry points take resolution, stride, kernel size and
  dilation "as fixed-length integer tuples"; \<^verbatim>\<open>ToArray\<close> reads the \<open>D\<close> elements of the
  caller's buffer into an \<^verbatim>\<open>Arr<D, Itype>\<close>.
\<close>

definition ToArray :: "nat \<Rightarrow> 'i::len word list \<Rightarrow> 'i Arr" where
  "ToArray D p = take D p"

text \<open>The parameters of an operator that the macros read.\<close>

record (overloaded) 'i args =
  p_pixel_dist :: "'i word list"
  p_stride :: "'i word list"
  p_kernel_size :: "'i word list"
  p_dilation :: "'i word list"
  region_type :: "'i word"
  p_offset :: "'i word list"
  n_offset :: "'i word"

text \<open>
  The local variables that the two initialisation macros declare. The global macro
  declares the first group only; \<^verbatim>\<open>p_coord2inds\<close>, \<^verbatim>\<open>p_in_maps\<close> and \<^verbatim>\<open>p_out_maps\<close>
  point into the metadata and are its fields here.
\<close>

record (overloaded) 'i gvars =
  pixel_dists :: "'i Arr"
  out_pixel_dists :: "'i Arr"
  pixel_dist_hash :: "64 word"
  out_pixel_dist_hash :: "64 word"
  stride_hash :: "64 word"
  kernel_size_hash :: "64 word"
  dilation_hash :: "64 word"
  key :: InOutKey

record (overloaded) 'i vars = "'i gvars" +
  strides :: "'i Arr"
  kernel_size :: "'i Arr"
  dilations :: "'i Arr"

text \<open>
  What a macro leaves behind: \<open>ret = Some r\<close> when it ran \<^verbatim>\<open>return r\<close> in the
  enclosing function and \<open>None\<close> when control fell through to the next statement;
  the metadata as it then is; the text written to \<^verbatim>\<open>std::cerr\<close>; and the builders
  that were called, in order.
\<close>

datatype builder =
  OutputCoordIndexMap | OutputOriginCoordIndexMap
  | InOutPerKernel | InOutPerKernelTranspose | GlobalReductionInOutMap

record (overloaded) 'i outcome =
  ret :: "int option"
  meta :: "'i Metadata"
  cerr :: string
  calls :: "builder list"

fun is_kernel_map_builder :: "builder \<Rightarrow> bool" where
  "is_kernel_map_builder InOutPerKernel = True"
| "is_kernel_map_builder InOutPerKernelTranspose = True"
| "is_kernel_map_builder GlobalReductionInOutMap = True"
| "is_kernel_map_builder _ = False"

subsection \<open>\<^verbatim>\<open>INITIALIZE_DEFAULT_VARS_AND_HASHES\<close> (lines 126-146)\<close>

definition INITIALIZE_DEFAULT_VARS_AND_HASHES ::
  "nat \<Rightarrow> 'i::len externs \<Rightarrow> 'i args \<Rightarrow> bool \<Rightarrow> 'i vars" where
  "INITIALIZE_DEFAULT_VARS_AND_HASHES D ext a IS_TRANSPOSE =
     (let pixel_dists' = ToArray D (p_pixel_dist a);
          strides' = ToArray D (p_stride a);
          kernel_size' = ToArray D (p_kernel_size a);
          dilations' = ToArray D (p_dilation a);
          pixel_dist_hash' = hash_vec pixel_dists';
          stride_hash' = hash_vec strides';
          kernel_size_hash' = hash_vec kernel_size';
          dilation_hash' = hash_vec dilations';
          out_pixel_dists' = ComputeOutPixelDist ext pixel_dists' strides' IS_TRANSPOSE;
          out_pixel_dist_hash' = hash_vec out_pixel_dists'
      in \<lparr>pixel_dists = pixel_dists', out_pixel_dists = out_pixel_dists',
          pixel_dist_hash = pixel_dist_hash', out_pixel_dist_hash = out_pixel_dist_hash',
          stride_hash = stride_hash', kernel_size_hash = kernel_size_hash',
          dilation_hash = dilation_hash',
          key = [pixel_dist_hash', stride_hash', kernel_size_hash', dilation_hash',
                 of_bool IS_TRANSPOSE],
          strides = strides', kernel_size = kernel_size', dilations = dilations'\<rparr>)"

subsection \<open>\<^verbatim>\<open>ASSERT_EQ\<close> (lines 149-154)\<close>

fun digits :: "nat \<Rightarrow> string" where
  "digits n =
     (if n < 10 then [char_of (48 + n)]
      else digits (n div 10) @ [char_of (48 + n mod 10)])"

definition show_int :: "int \<Rightarrow> string" where
  "show_int k = (if k < 0 then CHR ''-'' # digits (nat (- k)) else digits (nat k))"

definition endl :: string where
  "endl = [CHR 0x0A]"

text \<open>\<open>nA\<close> and \<open>nB\<close> are the stringised operands \<^verbatim>\<open>#A\<close> and \<^verbatim>\<open>#B\<close>.\<close>

definition ASSERT_EQ :: "string \<Rightarrow> int \<Rightarrow> string \<Rightarrow> int \<Rightarrow> 'i::len Metadata \<Rightarrow> 'i outcome" where
  "ASSERT_EQ nA A nB B md =
     (if A \<noteq> B
      then \<lparr>ret = Some (- 1), meta = md,
            cerr = ''Assertion failed: '' @ nA @ '': '' @ show_int A @ '' != '' @ nB
                   @ '': '' @ show_int B @ endl,
            calls = []\<rparr>
      else \<lparr>ret = None, meta = md, cerr = [], calls = []\<rparr>)"

subsection \<open>\<^verbatim>\<open>INITIALIZE_OUT_COORDS_AND_KERNEL_MAP\<close> (lines 157-191)\<close>

text \<open>Lines 164-176, entered when \<^verbatim>\<open>IS_TRANSPOSE\<close> holds.\<close>

definition transpose_branch ::
  "nat \<Rightarrow> 'i::len externs \<Rightarrow> 'i vars \<Rightarrow> 'i args \<Rightarrow> 'i Metadata \<Rightarrow> 'i outcome" where
  "transpose_branch D ext v a md =
     (if coord2inds md (out_pixel_dist_hash v) = None
      then \<lparr>ret = Some (- 1), meta = md,
            cerr = ''Out coordinate map not defined for pixel dist.'' @ [CHR 0x0A],
            calls = []\<rparr>
      else if in_maps md (key v) = None
      then
        (let (c_in, c2i) = subscript (coord2inds md) (pixel_dist_hash v) (CoordIndexMap_new D);
             (c_out, c2i') = subscript c2i (out_pixel_dist_hash v) (CoordIndexMap_new D);
             in_out_tuple =
               CreateInOutPerKernelTranspose ext c_in c_out (out_pixel_dists v)
                 (kernel_size v) (dilations v) (region_type a) (p_offset a) (n_offset a)
         in \<lparr>ret = None,
             meta = md\<lparr>coord2inds := c2i',
                       in_maps := (in_maps md)(key v \<mapsto> fst in_out_tuple),
                       out_maps := (out_maps md)(key v \<mapsto> snd in_out_tuple)\<rparr>,
             cerr = [], calls = [InOutPerKernelTranspose]\<rparr>)
      else \<lparr>ret = None, meta = md, cerr = [], calls = []\<rparr>)"

text \<open>Lines 178-181: the output coordinate map is created when it is missing.\<close>

definition forward_out_coords ::
  "nat \<Rightarrow> 'i::len externs \<Rightarrow> 'i vars \<Rightarrow> 'i Metadata \<Rightarrow> 'i Metadata \<times> builder list" where
  "forward_out_coords D ext v md =
     (if coord2inds md (out_pixel_dist_hash v) = None
      then
        (let (c_in, c2i) = subscript (coord2inds md) (pixel_dist_hash v) (CoordIndexMap_new D)
         in (md\<lparr>coord2inds :=
                  c2i(out_pixel_dist_hash v \<mapsto>
                    CreateOutputCoordIndexMap ext c_in (pixel_dists v) (strides v))\<rparr>,
             [OutputCoordIndexMap]))
      else (md, []))"

text \<open>Lines 177-190, entered when \<^verbatim>\<open>IS_TRANSPOSE\<close> does not hold.\<close>

definition forward_branch ::
  "nat \<Rightarrow> 'i::len externs \<Rightarrow> 'i vars \<Rightarrow> 'i args \<Rightarrow> 'i Metadata \<Rightarrow> 'i outcome" where
  "forward_branch D ext v a md =
     (let (md1, cs) = forward_out_coords D ext v md
      in if in_maps md1 (key v) = None
         then
           (let (c_in, c2i) =
                  subscript (coord2inds md1) (pixel_dist_hash v) (CoordIndexMap_new D);
                (c_out, c2i') = subscript c2i (out_pixel_dist_hash v) (CoordIndexMap_new D);
                in_out_tuple =
                  CreateInOutPerKernel ext c_in c_out (pixel_dists v) (kernel_size v)
                    (dilations v) (region_type a) (p_offset a) (n_offset a)
            in \<lparr>ret = None,
                meta = md1\<lparr>coord2inds := c2i',
                           in_maps := (in_maps md1)(key v \<mapsto> fst in_out_tuple),
                           out_maps := (out_maps md1)(key v \<mapsto> snd in_out_tuple)\<rparr>,
                cerr = [], calls = cs @ [InOutPerKernel]\<rparr>)
         else \<lparr>ret = None, meta = md1, cerr = [], calls = cs\<rparr>)"

definition INITIALIZE_OUT_COORDS_AND_KERNEL_MAP ::
  "nat \<Rightarrow> 'i::len externs \<Rightarrow> bool \<Rightarrow> 'i vars \<Rightarrow> 'i args \<Rightarrow> 'i Metadata \<Rightarrow> 'i outcome" where
  "INITIALIZE_OUT_COORDS_AND_KERNEL_MAP D ext IS_TRANSPOSE v a md =
     (if coord2inds md (pixel_dist_hash v) = None
      then \<lparr>ret = Some (- 1), meta = md,
            cerr = ''The coord map doesn't exists for the given pixel dists'' @ endl,
            calls = []\<rparr>
      else if IS_TRANSPOSE then transpose_branch D ext v a md
      else forward_branch D ext v a md)"

subsection \<open>The global macros (lines 193-224)\<close>

text \<open>\<^verbatim>\<open>Arr<D, Itype>()\<close> is value-initialised: \<open>D\<close> zeros.\<close>

definition Arr_zero :: "nat \<Rightarrow> 'i::len Arr" where
  "Arr_zero D = replicate D 0"

definition INITIALIZE_DEFAULT_GLOBAL_VARS_AND_HASHES :: "nat \<Rightarrow> 'i::len args \<Rightarrow> 'i gvars" where
  "INITIALIZE_DEFAULT_GLOBAL_VARS_AND_HASHES D a =
     (let pixel_dists' = ToArray D (p_pixel_dist a);
          out_pixel_dists' = Arr_zero D;
          pixel_dist_hash' = hash_vec pixel_dists';
          out_pixel_dist_hash' = hash_vec out_pixel_dists';
          stride_hash' = hash_vec (Arr_zero D :: 'i Arr);
          kernel_size_hash' = hash_vec (Arr_zero D :: 'i Arr);
          dilation_hash' = hash_vec (Arr_zero D :: 'i Arr)
      in \<lparr>pixel_dists = pixel_dists', out_pixel_dists = out_pixel_dists',
          pixel_dist_hash = pixel_dist_hash', out_pixel_dist_hash = out_pixel_dist_hash',
          stride_hash = stride_hash', kernel_size_hash = kernel_size_hash',
          dilation_hash = dilation_hash',
          key = [pixel_dist_hash', stride_hash', kernel_size_hash', dilation_hash',
                 of_bool False]\<rparr>)"

text \<open>Lines 213-216.\<close>

definition global_out_coords ::
  "nat \<Rightarrow> 'i::len externs \<Rightarrow> ('i, 'z) gvars_scheme \<Rightarrow> 'i Metadata
   \<Rightarrow> 'i Metadata \<times> builder list" where
  "global_out_coords D ext v md =
     (if coord2inds md (out_pixel_dist_hash v) = None
      then
        (let (c_in, c2i) = subscript (coord2inds md) (pixel_dist_hash v) (CoordIndexMap_new D)
         in (md\<lparr>coord2inds :=
                  c2i(out_pixel_dist_hash v \<mapsto> CreateOutputOriginCoordIndexMap ext c_in 0)\<rparr>,
             [OutputOriginCoordIndexMap]))
      else (md, []))"

definition INITIALIZE_GLOBAL_OUT_COORDS_AND_KERNEL_MAP ::
  "nat \<Rightarrow> 'i::len externs \<Rightarrow> ('i, 'z) gvars_scheme \<Rightarrow> 'i Metadata \<Rightarrow> 'i outcome" where
  "INITIALIZE_GLOBAL_OUT_COORDS_AND_KERNEL_MAP D ext v md =
     (if coord2inds md (pixel_dist_hash v) = None
      then \<lparr>ret = Some (- 1), meta = md,
            cerr = ''The coord map doesn't exists for the given pixel dists'' @ endl,
            calls = []\<rparr>
      else
        (let (md1, cs) = global_out_coords D ext v md
         in if in_maps md1 (key v) = None
            then
              (let (c_in, c2i) =
                     subscript (coord2inds md1) (pixel_dist_hash v) (CoordIndexMap_new D);
                   (c_out, c2i') =
                     subscript c2i (out_pixel_dist_hash v) (CoordIndexMap_new D);
                   in_out_tuple = CreateGlobalReductionInOutMap ext c_in c_out
               in \<lparr>ret = None,
                   meta = md1\<lparr>coord2inds := c2i',
                              in_maps := (in_maps md1)(key v \<mapsto> fst in_out_tuple),
                              out_maps := (out_maps md1)(key v \<mapsto> snd in_out_tuple)\<rparr>,
                   cerr = [], calls = cs @ [GlobalReductionInOutMap]\<rparr>)
            else \<lparr>ret = None, meta = md1, cerr = [], calls = cs\<rparr>))"

subsection \<open>\<^verbatim>\<open>BACKWARD_PROP_CHECK\<close> (lines 227-235)\<close>

definition BACKWARD_PROP_CHECK :: "('i::len, 'z) gvars_scheme \<Rightarrow> 'i Metadata \<Rightarrow> 'i outcome" where
  "BACKWARD_PROP_CHECK v md =
     (if coord2inds md (pixel_dist_hash v) = None
      then \<lparr>ret = Some (- 1), meta = md, cerr = [], calls = []\<rparr>
      else if coord2inds md (out_pixel_dist_hash v) = None
      then \<lparr>ret = Some (- 1), meta = md, cerr = [], calls = []\<rparr>
      else if in_maps md (key v) = None
      then \<lparr>ret = Some (- 1), meta = md, cerr = [], calls = []\<rparr>
      else \<lparr>ret = None, meta = md, cerr = [], calls = []\<rparr>)"

subsection \<open>The macros as an operator expands them\<close>

text \<open>
  A map or check macro reads the variables that an initialisation macro declared just
  before it, with the same \<^verbatim>\<open>IS_TRANSPOSE\<close>.
\<close>

definition forward_request ::
  "nat \<Rightarrow> 'i::len externs \<Rightarrow> bool \<Rightarrow> 'i args \<Rightarrow> 'i Metadata \<Rightarrow> 'i outcome" where
  "forward_request D ext IS_TRANSPOSE a md =
     INITIALIZE_OUT_COORDS_AND_KERNEL_MAP D ext IS_TRANSPOSE
       (INITIALIZE_DEFAULT_VARS_AND_HASHES D ext a IS_TRANSPOSE) a md"

definition global_request ::
  "nat \<Rightarrow> 'i::len externs \<Rightarrow> 'i args \<Rightarrow> 'i Metadata \<Rightarrow> 'i outcome" where
  "global_request D ext a md =
     INITIALIZE_GLOBAL_OUT_COORDS_AND_KERNEL_MAP D ext
       (INITIALIZE_DEFAULT_GLOBAL_VARS_AND_HASHES D a) md"

definition backward_request ::
  "nat \<Rightarrow> 'i::len externs \<Rightarrow> bool \<Rightarrow> 'i args \<Rightarrow> 'i Metadata \<Rightarrow> 'i outcome" where
  "backward_request D ext IS_TRANSPOSE a md =
     BACKWARD_PROP_CHECK (INITIALIZE_DEFAULT_VARS_AND_HASHES D ext a IS_TRANSPOSE) md"

definition global_backward_request :: "nat \<Rightarrow> 'i::len args \<Rightarrow> 'i Metadata \<Rightarrow> 'i outcome" where
  "global_backward_request D a md =
     BACKWARD_PROP_CHECK (INITIALIZE_DEFAULT_GLOBAL_VARS_AND_HASHES D a) md"

text \<open>
  Modelled from the spec: the registration entry points (\<^verbatim>\<open>t_initialize_coords\<close> and
  its siblings, lines 237-252) are declared in src and defined elsewhere. Section 6
  of the spec: "register coordinates at a resolution"; section 3: the scope "owns all
  CoordIndexMaps (by resolution-hash)". A registration stores a coordinate map under
  the hash of its resolution and touches nothing else.
\<close>

definition register_coords :: "64 word \<Rightarrow> 'i::len CoordIndexMap \<Rightarrow> 'i Metadata \<Rightarrow> 'i Metadata" where
  "register_coords h c md = md\<lparr>coord2inds := (coord2inds md)(h \<mapsto> c)\<rparr>"

text \<open>
  Calls on one scope, one after the other. A call that returned \<open>- 1\<close> leaves the scope
  to the next call as it then was. \<open>'a\<close> is \<open>'i args\<close> and \<open>'c\<close> is
  \<open>'i CoordIndexMap\<close>.
\<close>

datatype ('a, 'c) entry =
  Forward bool 'a
  | Global 'a
  | Backward bool 'a
  | GlobalBackward 'a
  | Assert string int string int
  | Clear
  | Register "64 word" 'c

fun call ::
  "nat \<Rightarrow> 'i::len externs \<Rightarrow> ('i args, 'i CoordIndexMap) entry \<Rightarrow> 'i Metadata \<Rightarrow> 'i outcome" where
  "call D ext (Forward t a) md = forward_request D ext t a md"
| "call D ext (Global a) md = global_request D ext a md"
| "call D ext (Backward t a) md = backward_request D ext t a md"
| "call D ext (GlobalBackward a) md = global_backward_request D a md"
| "call D ext (Assert nA A nB B) md = ASSERT_EQ nA A nB B md"
| "call D ext Clear md = \<lparr>ret = None, meta = clear md, cerr = [], calls = []\<rparr>"
| "call D ext (Register h c) md =
     \<lparr>ret = None, meta = register_coords h c md, cerr = [], calls = []\<rparr>"

fun run ::
  "nat \<Rightarrow> 'i::len externs \<Rightarrow> ('i args, 'i CoordIndexMap) entry list \<Rightarrow> 'i Metadata \<Rightarrow> 'i Metadata" where
  "run D ext [] md = md"
| "run D ext (e # es) md = run D ext es (meta (call D ext e md))"

subsection \<open>Insertion into a \<^verbatim>\<open>CoordIndexMap\<close>\<close>

text \<open>
  \<^verbatim>\<open>google::dense_hash_map\<close> is a library type and its \<^verbatim>\<open>insert\<close> is not in src. Its
  contract: the empty key must have been set before the first insertion, and it is an
  error to insert an item whose key is the empty key; a key that is already there keeps
  its value.
\<close>

datatype hm_error = EmptyKeyNotSet | EmptyKeyInserted

definition insert_hm ::
  "'k \<Rightarrow> 'v \<Rightarrow> ('k, 'v) dense_hash_map \<Rightarrow> hm_error + ('k, 'v) dense_hash_map" where
  "insert_hm k v m =
     (case empty_key_hm m of
        None \<Rightarrow> Inl EmptyKeyNotSet
      | Some e \<Rightarrow>
          if k = e then Inl EmptyKeyInserted
          else (case entries m k of
                  Some _ \<Rightarrow> Inr m
                | None \<Rightarrow> Inr (m\<lparr>entries := (entries m)(k \<mapsto> v)\<rparr>)))"

text \<open>
  Modelled from the spec: the insertion of coordinates (behind \<^verbatim>\<open>t_initialize_coords\<close>,
  lines 237-252) is not in src. Section 4.2: "insert(coordinate) -> index: if
  coordinate present, return existing index (idempotent); else assign next sequential
  index, insert, return it"; section 3: the sentinel "is reserved and never a real
  key", which is the library's refusal of the empty key.
\<close>

definition insert_coord ::
  "'i::len Coord \<Rightarrow> 'i CoordIndexMap \<Rightarrow> hm_error + (64 word \<times> 'i CoordIndexMap)" where
  "insert_coord c m =
     (case entries (map_hm m) c of
        Some index \<Rightarrow> Inr (index, m)
      | None \<Rightarrow>
          (case insert_hm c (of_nat (size_cim m)) (map_hm m) of
             Inl e \<Rightarrow> Inl e
           | Inr hm \<Rightarrow> Inr (of_nat (size_cim m), m\<lparr>map_hm := hm\<rparr>)))"

text \<open>Inserting a sequence of coordinates, one after the other, up to the first error.\<close>

fun insert_coords :: "'i::len Coord list \<Rightarrow> 'i CoordIndexMap \<Rightarrow> hm_error + 'i CoordIndexMap" where
  "insert_coords [] m = Inr m"
| "insert_coords (c # cs) m =
     (case insert_coord c m of Inl e \<Rightarrow> Inl e | Inr (index, m') \<Rightarrow> insert_coords cs m')"

section \<open>The spec's words, for comparison\<close>

text \<open>
  Section 4.1 of the spec, on natural numbers: start from the offset basis; for each
  component multiply the running hash by the prime, modulo \<open>2^64\<close>, then exclusive-or
  with the component reinterpreted as unsigned.
\<close>

fun spec_mix :: "nat \<Rightarrow> nat list \<Rightarrow> nat" where
  "spec_mix h [] = h"
| "spec_mix h (x # xs) = spec_mix ((h * 1099511628211) mod 2 ^ 64 XOR x) xs"

definition spec_hash :: "nat list \<Rightarrow> nat" where
  "spec_hash xs = spec_mix 14695981039346656037 xs"

definition as_unsigned :: "'i::len word \<Rightarrow> nat" where
  "as_unsigned x = nat (sint x mod 2 ^ 64)"

text \<open>
  Section 3 of the spec: "the extreme representable negative value" of the index type,
  \<^verbatim>\<open>std::numeric_limits<Itype>::min()\<close>.
\<close>

definition extreme_negative :: "'i::len word" where
  "extreme_negative = word_of_int (- (2 ^ (LENGTH('i) - 1)))"

section \<open>A concrete scope\<close>

text \<open>
  Modelled from the spec: \<^verbatim>\<open>ComputeOutPixelDist\<close> (line 142) is not in src. Section 4.3:
  strided, "output resolution = input resolution \<times> stride (component-wise)";
  transposed, "output resolution = input resolution \<div> stride".
\<close>

definition ComputeOutPixelDist_spec :: "'i::len Arr \<Rightarrow> 'i Arr \<Rightarrow> bool \<Rightarrow> 'i Arr" where
  "ComputeOutPixelDist_spec resolution stride is_transpose =
     map2 (\<lambda>p s. if is_transpose then word_of_int (sint p sdiv sint s) else p * s)
       resolution stride"

text \<open>
  An instance of the absent routines with \<^verbatim>\<open>int32_t\<close> indices, to run the macros on
  given inputs. The resolution arithmetic is the spec's; the builders are placeholders
  returning fixed maps, which no statement below depends on.
\<close>

definition sample_externs :: "32 externs" where
  "sample_externs =
     \<lparr>ComputeOutPixelDist = ComputeOutPixelDist_spec,
      CreateOutputCoordIndexMap = (\<lambda>c_in pd st. CoordIndexMap_new (length pd)),
      CreateOutputOriginCoordIndexMap = (\<lambda>c_in n. CoordIndexMap_new 3),
      CreateInOutPerKernel = (\<lambda>c_in c_out pd ks dl rt off n. ([[0, 1]], [[0, 0]])),
      CreateInOutPerKernelTranspose = (\<lambda>c_in c_out pd ks dl rt off n. ([[0, 0]], [[0, 1]])),
      CreateGlobalReductionInOutMap = (\<lambda>c_in c_out. ([[0, 1, 2]], [[0, 0, 0]]))\<rparr>"

definition sample_args :: "32 word list \<Rightarrow> 32 word list \<Rightarrow> 32 args" where
  "sample_args pd st =
     \<lparr>p_pixel_dist = pd, p_stride = st, p_kernel_size = [3, 3, 3], p_dilation = [1, 1, 1],
      region_type = 0, p_offset = [], n_offset = 0\<rparr>"

text \<open>
  Two scopes in three dimensions: one with a coordinate map at resolution \<open>(2, 2, 2)\<close>
  only, one with coordinate maps at resolutions \<open>(2, 2, 2)\<close> and \<open>(1, 1, 1)\<close>.
\<close>

definition coarse_scope :: "32 Metadata" where
  "coarse_scope =
     register_coords (hash_vec [2, 2, 2 :: 32 word]) (CoordIndexMap_new 3) Metadata_new"

definition sample_scope :: "32 Metadata" where
  "sample_scope =
     register_coords (hash_vec [1, 1, 1 :: 32 word]) (CoordIndexMap_new 3) coarse_scope"

text \<open>
  Two resolutions with the same hash, \<open>15655081956654708470\<close>, and a scope holding
  coordinate maps at the first of them and at its half along the first axis.
\<close>

definition res_a :: "32 word list" where
  "res_a = [2, 1216, 378451]"

definition res_b :: "32 word list" where
  "res_b = [4, 652, 1]"

definition colliding_scope :: "32 Metadata" where
  "colliding_scope =
     register_coords (hash_vec [1, 1216, 378451 :: 32 word]) (CoordIndexMap_new 3)
       (register_coords (hash_vec res_a) (CoordIndexMap_new 3) Metadata_new)"

text \<open>Operators at the two resolutions, with stride \<open>(2, 1, 1)\<close>.\<close>

definition coll_a :: "32 args" where
  "coll_a = sample_args res_a [2, 1, 1]"

definition coll_b :: "32 args" where
  "coll_b = sample_args res_b [2, 1, 1]"

text \<open>
  Operators with all-zero geometry: one at resolution \<open>(2, 2, 2)\<close> with zero stride,
  kernel size and dilation, one at the all-zero resolution.
\<close>

definition zero_geometry :: "32 args" where
  "zero_geometry =
     \<lparr>p_pixel_dist = [2, 2, 2], p_stride = [0, 0, 0], p_kernel_size = [0, 0, 0],
      p_dilation = [0, 0, 0], region_type = 0, p_offset = [], n_offset = 0\<rparr>"

definition zero_resolution :: "32 args" where
  "zero_resolution = sample_args [0, 0, 0] [2, 2, 2]"

text \<open>
  The variables of three operators on \<open>sample_scope\<close> at resolution \<open>(2, 2, 2)\<close> with
  stride \<open>(2, 2, 2)\<close>: transposed (output resolution \<open>(1, 1, 1)\<close>, registered),
  strided (output resolution \<open>(4, 4, 4)\<close>, not registered) and global.
\<close>

definition sample_a :: "32 args" where
  "sample_a = sample_args [2, 2, 2] [2, 2, 2]"

definition sample_tr :: "32 vars" where
  "sample_tr = INITIALIZE_DEFAULT_VARS_AND_HASHES 3 sample_externs sample_a True"

definition sample_fw :: "32 vars" where
  "sample_fw = INITIALIZE_DEFAULT_VARS_AND_HASHES 3 sample_externs sample_a False"

definition sample_gl :: "32 gvars" where
  "sample_gl = INITIALIZE_DEFAULT_GLOBAL_VARS_AND_HASHES 3 sample_a"

section \<open>The paths through \<^verbatim>\<open>INITIALIZE_OUT_COORDS_AND_KERNEL_MAP\<close>\<close>

lemma subscript_Some: "m k = Some v \<Longrightarrow> subscript m k d = (v, m)"
  by (simp add: subscript_def)

lemma macro_no_in:
  "coord2inds md (pixel_dist_hash v) = None \<Longrightarrow>
   INITIALIZE_OUT_COORDS_AND_KERNEL_MAP D ext t v a md =
     \<lparr>ret = Some (- 1), meta = md,
      cerr = ''The coord map doesn't exists for the given pixel dists'' @ endl, calls = []\<rparr>"
  by (simp add: INITIALIZE_OUT_COORDS_AND_KERNEL_MAP_def)

lemma macro_tr_no_out:
  "coord2inds md (pixel_dist_hash v) = Some ci \<Longrightarrow>
   coord2inds md (out_pixel_dist_hash v) = None \<Longrightarrow>
   INITIALIZE_OUT_COORDS_AND_KERNEL_MAP D ext True v a md =
     \<lparr>ret = Some (- 1), meta = md,
      cerr = ''Out coordinate map not defined for pixel dist.'' @ [CHR 0x0A], calls = []\<rparr>"
  by (simp add: INITIALIZE_OUT_COORDS_AND_KERNEL_MAP_def transpose_branch_def)

lemma macro_tr_miss:
  "coord2inds md (pixel_dist_hash v) = Some ci \<Longrightarrow>
   coord2inds md (out_pixel_dist_hash v) = Some co \<Longrightarrow>
   in_maps md (key v) = None \<Longrightarrow>
   INITIALIZE_OUT_COORDS_AND_KERNEL_MAP D ext True v a md =
     \<lparr>ret = None,
      meta = md\<lparr>in_maps := (in_maps md)(key v \<mapsto> fst (CreateInOutPerKernelTranspose ext ci co
                    (out_pixel_dists v) (kernel_size v) (dilations v) (region_type a)
                    (p_offset a) (n_offset a))),
                out_maps := (out_maps md)(key v \<mapsto> snd (CreateInOutPerKernelTranspose ext ci co
                    (out_pixel_dists v) (kernel_size v) (dilations v) (region_type a)
                    (p_offset a) (n_offset a)))\<rparr>,
      cerr = [], calls = [InOutPerKernelTranspose]\<rparr>"
  by (simp add: INITIALIZE_OUT_COORDS_AND_KERNEL_MAP_def transpose_branch_def subscript_Some
      Let_def)

lemma macro_tr_hit:
  "coord2inds md (pixel_dist_hash v) = Some ci \<Longrightarrow>
   coord2inds md (out_pixel_dist_hash v) = Some co \<Longrightarrow>
   in_maps md (key v) = Some im \<Longrightarrow>
   INITIALIZE_OUT_COORDS_AND_KERNEL_MAP D ext True v a md =
     \<lparr>ret = None, meta = md, cerr = [], calls = []\<rparr>"
  by (simp add: INITIALIZE_OUT_COORDS_AND_KERNEL_MAP_def transpose_branch_def)

lemma macro_fw_old_hit:
  "coord2inds md (pixel_dist_hash v) = Some ci \<Longrightarrow>
   coord2inds md (out_pixel_dist_hash v) = Some co \<Longrightarrow>
   in_maps md (key v) = Some im \<Longrightarrow>
   INITIALIZE_OUT_COORDS_AND_KERNEL_MAP D ext False v a md =
     \<lparr>ret = None, meta = md, cerr = [], calls = []\<rparr>"
  by (simp add: INITIALIZE_OUT_COORDS_AND_KERNEL_MAP_def forward_branch_def
      forward_out_coords_def)

lemma macro_fw_old_miss:
  "coord2inds md (pixel_dist_hash v) = Some ci \<Longrightarrow>
   coord2inds md (out_pixel_dist_hash v) = Some co \<Longrightarrow>
   in_maps md (key v) = None \<Longrightarrow>
   INITIALIZE_OUT_COORDS_AND_KERNEL_MAP D ext False v a md =
     \<lparr>ret = None,
      meta = md\<lparr>in_maps := (in_maps md)(key v \<mapsto> fst (CreateInOutPerKernel ext ci co
                    (pixel_dists v) (kernel_size v) (dilations v) (region_type a)
                    (p_offset a) (n_offset a))),
                out_maps := (out_maps md)(key v \<mapsto> snd (CreateInOutPerKernel ext ci co
                    (pixel_dists v) (kernel_size v) (dilations v) (region_type a)
                    (p_offset a) (n_offset a)))\<rparr>,
      cerr = [], calls = [InOutPerKernel]\<rparr>"
  by (simp add: INITIALIZE_OUT_COORDS_AND_KERNEL_MAP_def forward_branch_def
      forward_out_coords_def subscript_Some Let_def)

lemma macro_fw_new_hit:
  "coord2inds md (pixel_dist_hash v) = Some ci \<Longrightarrow>
   coord2inds md (out_pixel_dist_hash v) = None \<Longrightarrow>
   in_maps md (key v) = Some im \<Longrightarrow>
   INITIALIZE_OUT_COORDS_AND_KERNEL_MAP D ext False v a md =
     \<lparr>ret = None,
      meta = md\<lparr>coord2inds := (coord2inds md)(out_pixel_dist_hash v \<mapsto>
                 CreateOutputCoordIndexMap ext ci (pixel_dists v) (strides v))\<rparr>,
      cerr = [], calls = [OutputCoordIndexMap]\<rparr>"
  by (simp add: INITIALIZE_OUT_COORDS_AND_KERNEL_MAP_def forward_branch_def
      forward_out_coords_def subscript_Some Let_def)

lemma macro_fw_new_miss:
  assumes "coord2inds md (pixel_dist_hash v) = Some ci"
    and "coord2inds md (out_pixel_dist_hash v) = None"
    and "in_maps md (key v) = None"
  shows "INITIALIZE_OUT_COORDS_AND_KERNEL_MAP D ext False v a md =
     \<lparr>ret = None,
      meta = md\<lparr>coord2inds := (coord2inds md)(out_pixel_dist_hash v \<mapsto>
                 CreateOutputCoordIndexMap ext ci (pixel_dists v) (strides v)),
                in_maps := (in_maps md)(key v \<mapsto> fst (CreateInOutPerKernel ext ci
                    (CreateOutputCoordIndexMap ext ci (pixel_dists v) (strides v))
                    (pixel_dists v) (kernel_size v) (dilations v) (region_type a)
                    (p_offset a) (n_offset a))),
                out_maps := (out_maps md)(key v \<mapsto> snd (CreateInOutPerKernel ext ci
                    (CreateOutputCoordIndexMap ext ci (pixel_dists v) (strides v))
                    (pixel_dists v) (kernel_size v) (dilations v) (region_type a)
                    (p_offset a) (n_offset a)))\<rparr>,
      cerr = [], calls = [OutputCoordIndexMap, InOutPerKernel]\<rparr>"
proof -
  have ne: "pixel_dist_hash v \<noteq> out_pixel_dist_hash v"
    using assms(1,2) by auto
  show ?thesis
    using assms ne
    by (simp add: INITIALIZE_OUT_COORDS_AND_KERNEL_MAP_def forward_branch_def
        forward_out_coords_def subscript_def Let_def)
qed


lemma macro_cases:
  obtains
    (no_in) "coord2inds md (pixel_dist_hash v) = None"
  | (tr_no_out) ci where "t" "coord2inds md (pixel_dist_hash v) = Some ci"
      "coord2inds md (out_pixel_dist_hash v) = None"
  | (tr_miss) ci co where "t" "coord2inds md (pixel_dist_hash v) = Some ci"
      "coord2inds md (out_pixel_dist_hash v) = Some co" "in_maps md (key v) = None"
  | (tr_hit) ci co im where "t" "coord2inds md (pixel_dist_hash v) = Some ci"
      "coord2inds md (out_pixel_dist_hash v) = Some co" "in_maps md (key v) = Some im"
  | (fw_new_miss) ci where "\<not> t" "coord2inds md (pixel_dist_hash v) = Some ci"
      "coord2inds md (out_pixel_dist_hash v) = None" "in_maps md (key v) = None"
  | (fw_new_hit) ci im where "\<not> t" "coord2inds md (pixel_dist_hash v) = Some ci"
      "coord2inds md (out_pixel_dist_hash v) = None" "in_maps md (key v) = Some im"
  | (fw_old_miss) ci co where "\<not> t" "coord2inds md (pixel_dist_hash v) = Some ci"
      "coord2inds md (out_pixel_dist_hash v) = Some co" "in_maps md (key v) = None"
  | (fw_old_hit) ci co im where "\<not> t" "coord2inds md (pixel_dist_hash v) = Some ci"
      "coord2inds md (out_pixel_dist_hash v) = Some co" "in_maps md (key v) = Some im"
  by (cases t; cases "coord2inds md (pixel_dist_hash v)";
      cases "coord2inds md (out_pixel_dist_hash v)"; cases "in_maps md (key v)") auto

lemmas macro_eqs =
  macro_no_in macro_tr_no_out macro_tr_miss macro_tr_hit
  macro_fw_new_miss macro_fw_new_hit macro_fw_old_miss macro_fw_old_hit

lemma macro_fail:
  "ret (INITIALIZE_OUT_COORDS_AND_KERNEL_MAP D ext t v a md) = Some r \<Longrightarrow>
   r = - 1 \<and> meta (INITIALIZE_OUT_COORDS_AND_KERNEL_MAP D ext t v a md) = md
   \<and> calls (INITIALIZE_OUT_COORDS_AND_KERNEL_MAP D ext t v a md) = []"
  by (cases rule: macro_cases [where md = md and v = v and t = t]) (simp_all add: macro_eqs)

lemma macro_done:
  "ret (INITIALIZE_OUT_COORDS_AND_KERNEL_MAP D ext t v a md) = None \<Longrightarrow>
   coord2inds (meta (INITIALIZE_OUT_COORDS_AND_KERNEL_MAP D ext t v a md)) (pixel_dist_hash v) \<noteq> None
   \<and> coord2inds (meta (INITIALIZE_OUT_COORDS_AND_KERNEL_MAP D ext t v a md)) (out_pixel_dist_hash v) \<noteq> None
   \<and> in_maps (meta (INITIALIZE_OUT_COORDS_AND_KERNEL_MAP D ext t v a md)) (key v) \<noteq> None"
  by (cases rule: macro_cases [where md = md and v = v and t = t]) (simp_all add: macro_eqs)

lemma macro_ready:
  "coord2inds md (pixel_dist_hash v) \<noteq> None \<Longrightarrow>
   coord2inds md (out_pixel_dist_hash v) \<noteq> None \<Longrightarrow>
   in_maps md (key v) \<noteq> None \<Longrightarrow>
   INITIALIZE_OUT_COORDS_AND_KERNEL_MAP D ext t v a md =
     \<lparr>ret = None, meta = md, cerr = [], calls = []\<rparr>"
  by (cases rule: macro_cases [where md = md and v = v and t = t]) (simp_all add: macro_eqs)

lemma macro_hit:
  "in_maps md (key v) \<noteq> None \<Longrightarrow>
   in_maps (meta (INITIALIZE_OUT_COORDS_AND_KERNEL_MAP D ext t v a md)) = in_maps md
   \<and> out_maps (meta (INITIALIZE_OUT_COORDS_AND_KERNEL_MAP D ext t v a md)) = out_maps md
   \<and> filter is_kernel_map_builder (calls (INITIALIZE_OUT_COORDS_AND_KERNEL_MAP D ext t v a md)) = []"
  by (cases rule: macro_cases [where md = md and v = v and t = t]) (simp_all add: macro_eqs)

lemma macro_miss:
  "in_maps md (key v) = None \<Longrightarrow>
   ret (INITIALIZE_OUT_COORDS_AND_KERNEL_MAP D ext t v a md) = None \<Longrightarrow>
   out_maps (meta (INITIALIZE_OUT_COORDS_AND_KERNEL_MAP D ext t v a md)) (key v) \<noteq> None
   \<and> length (filter is_kernel_map_builder
        (calls (INITIALIZE_OUT_COORDS_AND_KERNEL_MAP D ext t v a md))) = 1"
  by (cases rule: macro_cases [where md = md and v = v and t = t]) (simp_all add: macro_eqs)

lemma macro_builds_once:
  "length (filter is_kernel_map_builder
     (calls (INITIALIZE_OUT_COORDS_AND_KERNEL_MAP D ext t v a md))) \<le> 1"
  by (cases rule: macro_cases [where md = md and v = v and t = t]) (simp_all add: macro_eqs)

lemma macro_doms:
  "dom (in_maps (meta (INITIALIZE_OUT_COORDS_AND_KERNEL_MAP D ext t v a md))) =
     dom (in_maps md) \<union>
       (if ret (INITIALIZE_OUT_COORDS_AND_KERNEL_MAP D ext t v a md) = None
           \<and> in_maps md (key v) = None then {key v} else {})
   \<and> dom (out_maps (meta (INITIALIZE_OUT_COORDS_AND_KERNEL_MAP D ext t v a md))) =
     dom (out_maps md) \<union>
       (if ret (INITIALIZE_OUT_COORDS_AND_KERNEL_MAP D ext t v a md) = None
           \<and> in_maps md (key v) = None then {key v} else {})"
  by (cases rule: macro_cases [where md = md and v = v and t = t]) (simp_all add: macro_eqs)

lemma macro_transposed_coords:
  "coord2inds (meta (INITIALIZE_OUT_COORDS_AND_KERNEL_MAP D ext True v a md)) = coord2inds md"
  by (cases rule: macro_cases [where md = md and v = v and t = True]) (simp_all add: macro_eqs)

lemma macro_idem:
  "INITIALIZE_OUT_COORDS_AND_KERNEL_MAP D ext t v a
     (meta (INITIALIZE_OUT_COORDS_AND_KERNEL_MAP D ext t v a md)) =
   (INITIALIZE_OUT_COORDS_AND_KERNEL_MAP D ext t v a md)\<lparr>calls := []\<rparr>"
proof (cases "ret (INITIALIZE_OUT_COORDS_AND_KERNEL_MAP D ext t v a md)")
  case None
  from macro_done [OF None] have
    "INITIALIZE_OUT_COORDS_AND_KERNEL_MAP D ext t v a
       (meta (INITIALIZE_OUT_COORDS_AND_KERNEL_MAP D ext t v a md)) =
     \<lparr>ret = None, meta = meta (INITIALIZE_OUT_COORDS_AND_KERNEL_MAP D ext t v a md),
      cerr = [], calls = []\<rparr>"
    by (intro macro_ready) simp_all
  moreover have "cerr (INITIALIZE_OUT_COORDS_AND_KERNEL_MAP D ext t v a md) = []"
    using None
    by (cases rule: macro_cases [where md = md and v = v and t = t]) (simp_all add: macro_eqs)
  ultimately show ?thesis using None by simp
next
  case (Some r)
  from macro_fail [OF Some] show ?thesis by simp
qed

section \<open>The paths through \<^verbatim>\<open>INITIALIZE_GLOBAL_OUT_COORDS_AND_KERNEL_MAP\<close>\<close>

lemma global_no_in:
  "coord2inds md (pixel_dist_hash v) = None \<Longrightarrow>
   INITIALIZE_GLOBAL_OUT_COORDS_AND_KERNEL_MAP D ext v md =
     \<lparr>ret = Some (- 1), meta = md,
      cerr = ''The coord map doesn't exists for the given pixel dists'' @ endl, calls = []\<rparr>"
  by (simp add: INITIALIZE_GLOBAL_OUT_COORDS_AND_KERNEL_MAP_def)

lemma global_old_hit:
  "coord2inds md (pixel_dist_hash v) = Some ci \<Longrightarrow>
   coord2inds md (out_pixel_dist_hash v) = Some co \<Longrightarrow>
   in_maps md (key v) = Some im \<Longrightarrow>
   INITIALIZE_GLOBAL_OUT_COORDS_AND_KERNEL_MAP D ext v md =
     \<lparr>ret = None, meta = md, cerr = [], calls = []\<rparr>"
  by (simp add: INITIALIZE_GLOBAL_OUT_COORDS_AND_KERNEL_MAP_def global_out_coords_def)

lemma global_old_miss:
  "coord2inds md (pixel_dist_hash v) = Some ci \<Longrightarrow>
   coord2inds md (out_pixel_dist_hash v) = Some co \<Longrightarrow>
   in_maps md (key v) = None \<Longrightarrow>
   INITIALIZE_GLOBAL_OUT_COORDS_AND_KERNEL_MAP D ext v md =
     \<lparr>ret = None,
      meta = md\<lparr>in_maps := (in_maps md)(key v \<mapsto>
                   fst (CreateGlobalReductionInOutMap ext ci co)),
                out_maps := (out_maps md)(key v \<mapsto>
                   snd (CreateGlobalReductionInOutMap ext ci co))\<rparr>,
      cerr = [], calls = [GlobalReductionInOutMap]\<rparr>"
  by (simp add: INITIALIZE_GLOBAL_OUT_COORDS_AND_KERNEL_MAP_def global_out_coords_def
      subscript_Some Let_def)

lemma global_new_hit:
  "coord2inds md (pixel_dist_hash v) = Some ci \<Longrightarrow>
   coord2inds md (out_pixel_dist_hash v) = None \<Longrightarrow>
   in_maps md (key v) = Some im \<Longrightarrow>
   INITIALIZE_GLOBAL_OUT_COORDS_AND_KERNEL_MAP D ext v md =
     \<lparr>ret = None,
      meta = md\<lparr>coord2inds := (coord2inds md)(out_pixel_dist_hash v \<mapsto>
                 CreateOutputOriginCoordIndexMap ext ci 0)\<rparr>,
      cerr = [], calls = [OutputOriginCoordIndexMap]\<rparr>"
  by (simp add: INITIALIZE_GLOBAL_OUT_COORDS_AND_KERNEL_MAP_def global_out_coords_def
      subscript_Some Let_def)

lemma global_new_miss:
  assumes "coord2inds md (pixel_dist_hash v) = Some ci"
    and "coord2inds md (out_pixel_dist_hash v) = None"
    and "in_maps md (key v) = None"
  shows "INITIALIZE_GLOBAL_OUT_COORDS_AND_KERNEL_MAP D ext v md =
     \<lparr>ret = None,
      meta = md\<lparr>coord2inds := (coord2inds md)(out_pixel_dist_hash v \<mapsto>
                 CreateOutputOriginCoordIndexMap ext ci 0),
                in_maps := (in_maps md)(key v \<mapsto> fst (CreateGlobalReductionInOutMap ext ci
                    (CreateOutputOriginCoordIndexMap ext ci 0))),
                out_maps := (out_maps md)(key v \<mapsto> snd (CreateGlobalReductionInOutMap ext ci
                    (CreateOutputOriginCoordIndexMap ext ci 0)))\<rparr>,
      cerr = [], calls = [OutputOriginCoordIndexMap, GlobalReductionInOutMap]\<rparr>"
proof -
  have ne: "pixel_dist_hash v \<noteq> out_pixel_dist_hash v"
    using assms(1,2) by auto
  show ?thesis
    using assms ne
    by (simp add: INITIALIZE_GLOBAL_OUT_COORDS_AND_KERNEL_MAP_def global_out_coords_def
        subscript_def Let_def)
qed

lemma global_cases:
  obtains
    (no_in) "coord2inds md (pixel_dist_hash v) = None"
  | (new_miss) ci where "coord2inds md (pixel_dist_hash v) = Some ci"
      "coord2inds md (out_pixel_dist_hash v) = None" "in_maps md (key v) = None"
  | (new_hit) ci im where "coord2inds md (pixel_dist_hash v) = Some ci"
      "coord2inds md (out_pixel_dist_hash v) = None" "in_maps md (key v) = Some im"
  | (old_miss) ci co where "coord2inds md (pixel_dist_hash v) = Some ci"
      "coord2inds md (out_pixel_dist_hash v) = Some co" "in_maps md (key v) = None"
  | (old_hit) ci co im where "coord2inds md (pixel_dist_hash v) = Some ci"
      "coord2inds md (out_pixel_dist_hash v) = Some co" "in_maps md (key v) = Some im"
  by (cases "coord2inds md (pixel_dist_hash v)";
      cases "coord2inds md (out_pixel_dist_hash v)"; cases "in_maps md (key v)") auto

lemmas global_eqs = global_no_in global_new_miss global_new_hit global_old_miss global_old_hit

lemma global_fail:
  "ret (INITIALIZE_GLOBAL_OUT_COORDS_AND_KERNEL_MAP D ext v md) = Some r \<Longrightarrow>
   r = - 1 \<and> meta (INITIALIZE_GLOBAL_OUT_COORDS_AND_KERNEL_MAP D ext v md) = md
   \<and> calls (INITIALIZE_GLOBAL_OUT_COORDS_AND_KERNEL_MAP D ext v md) = []"
  by (cases rule: global_cases [where md = md and v = v]) (simp_all add: global_eqs)

lemma global_done:
  "ret (INITIALIZE_GLOBAL_OUT_COORDS_AND_KERNEL_MAP D ext v md) = None \<Longrightarrow>
   coord2inds (meta (INITIALIZE_GLOBAL_OUT_COORDS_AND_KERNEL_MAP D ext v md)) (pixel_dist_hash v) \<noteq> None
   \<and> coord2inds (meta (INITIALIZE_GLOBAL_OUT_COORDS_AND_KERNEL_MAP D ext v md)) (out_pixel_dist_hash v) \<noteq> None
   \<and> in_maps (meta (INITIALIZE_GLOBAL_OUT_COORDS_AND_KERNEL_MAP D ext v md)) (key v) \<noteq> None"
  by (cases rule: global_cases [where md = md and v = v]) (simp_all add: global_eqs)

lemma global_ready:
  "coord2inds md (pixel_dist_hash v) \<noteq> None \<Longrightarrow>
   coord2inds md (out_pixel_dist_hash v) \<noteq> None \<Longrightarrow>
   in_maps md (key v) \<noteq> None \<Longrightarrow>
   INITIALIZE_GLOBAL_OUT_COORDS_AND_KERNEL_MAP D ext v md =
     \<lparr>ret = None, meta = md, cerr = [], calls = []\<rparr>"
  by (cases rule: global_cases [where md = md and v = v]) (simp_all add: global_eqs)

lemma global_hit:
  "in_maps md (key v) \<noteq> None \<Longrightarrow>
   in_maps (meta (INITIALIZE_GLOBAL_OUT_COORDS_AND_KERNEL_MAP D ext v md)) = in_maps md
   \<and> out_maps (meta (INITIALIZE_GLOBAL_OUT_COORDS_AND_KERNEL_MAP D ext v md)) = out_maps md
   \<and> filter is_kernel_map_builder (calls (INITIALIZE_GLOBAL_OUT_COORDS_AND_KERNEL_MAP D ext v md)) = []"
  by (cases rule: global_cases [where md = md and v = v]) (simp_all add: global_eqs)

lemma global_miss:
  "in_maps md (key v) = None \<Longrightarrow>
   ret (INITIALIZE_GLOBAL_OUT_COORDS_AND_KERNEL_MAP D ext v md) = None \<Longrightarrow>
   out_maps (meta (INITIALIZE_GLOBAL_OUT_COORDS_AND_KERNEL_MAP D ext v md)) (key v) \<noteq> None
   \<and> length (filter is_kernel_map_builder
        (calls (INITIALIZE_GLOBAL_OUT_COORDS_AND_KERNEL_MAP D ext v md))) = 1"
  by (cases rule: global_cases [where md = md and v = v]) (simp_all add: global_eqs)

lemma global_builds_once:
  "length (filter is_kernel_map_builder
     (calls (INITIALIZE_GLOBAL_OUT_COORDS_AND_KERNEL_MAP D ext v md))) \<le> 1"
  by (cases rule: global_cases [where md = md and v = v]) (simp_all add: global_eqs)

lemma global_doms:
  "dom (in_maps (meta (INITIALIZE_GLOBAL_OUT_COORDS_AND_KERNEL_MAP D ext v md))) =
     dom (in_maps md) \<union>
       (if ret (INITIALIZE_GLOBAL_OUT_COORDS_AND_KERNEL_MAP D ext v md) = None
           \<and> in_maps md (key v) = None then {key v} else {})
   \<and> dom (out_maps (meta (INITIALIZE_GLOBAL_OUT_COORDS_AND_KERNEL_MAP D ext v md))) =
     dom (out_maps md) \<union>
       (if ret (INITIALIZE_GLOBAL_OUT_COORDS_AND_KERNEL_MAP D ext v md) = None
           \<and> in_maps md (key v) = None then {key v} else {})"
  by (cases rule: global_cases [where md = md and v = v]) (simp_all add: global_eqs)

lemma global_idem:
  "INITIALIZE_GLOBAL_OUT_COORDS_AND_KERNEL_MAP D ext v
     (meta (INITIALIZE_GLOBAL_OUT_COORDS_AND_KERNEL_MAP D ext v md)) =
   (INITIALIZE_GLOBAL_OUT_COORDS_AND_KERNEL_MAP D ext v md)\<lparr>calls := []\<rparr>"
proof (cases "ret (INITIALIZE_GLOBAL_OUT_COORDS_AND_KERNEL_MAP D ext v md)")
  case None
  from global_done [OF None] have
    "INITIALIZE_GLOBAL_OUT_COORDS_AND_KERNEL_MAP D ext v
       (meta (INITIALIZE_GLOBAL_OUT_COORDS_AND_KERNEL_MAP D ext v md)) =
     \<lparr>ret = None, meta = meta (INITIALIZE_GLOBAL_OUT_COORDS_AND_KERNEL_MAP D ext v md),
      cerr = [], calls = []\<rparr>"
    by (intro global_ready) simp_all
  moreover have "cerr (INITIALIZE_GLOBAL_OUT_COORDS_AND_KERNEL_MAP D ext v md) = []"
    using None
    by (cases rule: global_cases [where md = md and v = v]) (simp_all add: global_eqs)
  ultimately show ?thesis using None by simp
next
  case (Some r)
  from global_fail [OF Some] show ?thesis by simp
qed

section \<open>The backward check in one equation\<close>

lemma backward_check_eq:
  "BACKWARD_PROP_CHECK v md =
     \<lparr>ret = (if coord2inds md (pixel_dist_hash v) = None
                 \<or> coord2inds md (out_pixel_dist_hash v) = None
                 \<or> in_maps md (key v) = None then Some (- 1) else None),
      meta = md, cerr = [], calls = []\<rparr>"
  by (simp add: BACKWARD_PROP_CHECK_def)

section \<open>The tuple hash\<close>

lemma unat_uint64_of: "unat (uint64_of x) = as_unsigned x"
proof -
  have "uint (word_of_int (sint x) :: 64 word) = sint x mod 2 ^ LENGTH(64)"
    by (rule uint_word_of_int)
  then have "uint (uint64_of x) = sint x mod 2 ^ 64"
    by (simp only: uint64_of_def scast_eq len_of_numeral_defs) simp
  then show ?thesis
    by (simp only: as_unsigned_def unat_eq_nat_uint)
qed

lemma uint64_of_id: "uint64_of (x :: 64 word) = x"
  by (simp add: uint64_of_def)

lemma as_unsigned_id: "as_unsigned (x :: 64 word) = unat x"
  using unat_uint64_of [of x] by (simp only: uint64_of_id)

lemma unat_mix_step:
  "unat ((h * c) XOR x :: 64 word) = (unat h * unat c) mod 2 ^ 64 XOR unat x"
  by (simp add: unsigned_xor_eq unat_word_ariths)

lemma unat_prime: "unat (1099511628211 :: 64 word) = 1099511628211"
  by simp

lemma unat_basis: "unat (14695981039346656037 :: 64 word) = 14695981039346656037"
  by simp

lemma hash_loop_spec_mix: "unat (hash_loop h xs) = spec_mix (unat h) (map unat xs)"
proof (induction xs arbitrary: h)
  case Nil
  show ?case by simp
next
  case (Cons x xs)
  have "unat (hash_loop h (x # xs)) = unat (hash_loop ((h * 1099511628211) XOR x) xs)"
    by (simp only: hash_loop.simps)
  also have "\<dots> = spec_mix (unat ((h * 1099511628211) XOR x)) (map unat xs)"
    by (rule Cons.IH)
  also have "\<dots> = spec_mix (unat h) (map unat (x # xs))"
    by (simp only: unat_mix_step unat_prime list.map spec_mix.simps)
  finally show ?case .
qed

lemma hash_loop_foldl: "hash_loop h xs = foldl (\<lambda>h x. (h * 1099511628211) XOR x) h xs"
  by (induction xs arbitrary: h) simp_all

text \<open>
  C3. \<^verbatim>\<open>hash_vec\<close> is the 64-bit fold of the spec: it starts from
  \<open>14695981039346656037\<close>, and each step multiplies the running hash by
  \<open>1099511628211\<close> modulo \<open>2^64\<close> and then takes the exclusive or with the
  component read as an unsigned 64-bit value. \<^verbatim>\<open>ArrHash\<close>, \<^verbatim>\<open>CoordHash\<close> and
  \<^verbatim>\<open>InOutKeyHash\<close> are this one routine, at resolution tuples, coordinate tuples and
  geometry keys; the components of a key are unsigned already.
\<close>

theorem hash_vec_is_spec_hash:
  "unat (hash_vec (p :: 'i::len word list)) = spec_hash (map as_unsigned p)
   \<and> hash_vec p = foldl (\<lambda>h x. (h * 1099511628211) XOR uint64_of x) 14695981039346656037 p
   \<and> ArrHash p = hash_vec p
   \<and> CoordHash p = hash_vec p
   \<and> InOutKeyHash k = hash_vec k
   \<and> map as_unsigned k = map unat k"
proof -
  have "unat (hash_vec p) = spec_mix (unat (14695981039346656037 :: 64 word)) (map unat (map uint64_of p))"
    unfolding hash_vec_def by (rule hash_loop_spec_mix)
  also have "map unat (map uint64_of p) = map as_unsigned p"
    by (simp only: map_map comp_def unat_uint64_of)
  finally have a: "unat (hash_vec p) = spec_hash (map as_unsigned p)"
    by (simp only: spec_hash_def unat_basis)
  have b: "hash_vec p = foldl (\<lambda>h x. (h * 1099511628211) XOR uint64_of x) 14695981039346656037 p"
    by (simp only: hash_vec_def hash_loop_foldl foldl_map)
  have c: "map as_unsigned (k :: InOutKey) = map unat k"
    by (rule map_cong [OF refl]) (rule as_unsigned_id)
  from a b c show ?thesis
    by (simp only: ArrHash_def CoordHash_def InOutKeyHash_def simp_thms)
qed

section \<open>The constructor of \<^verbatim>\<open>CoordIndexMap\<close>\<close>

lemma fill_empty_key_from:
  "i \<le> D + 1 \<Longrightarrow> length k = D + 1 \<Longrightarrow>
   fill_empty_key D i k = take i k @ replicate (D + 1 - i) (- numeric_limits_max)"
proof (induction D i k rule: fill_empty_key.induct)
  case (1 D i k)
  show ?case
  proof (cases "i < D + 1")
    case True
    have "fill_empty_key D i k = fill_empty_key D (i + 1) (k[i := - numeric_limits_max])"
      using True by (subst fill_empty_key.simps) (simp only: if_True)
    also have "\<dots> = take (i + 1) (k[i := - numeric_limits_max])
        @ replicate (D + 1 - (i + 1)) (- numeric_limits_max)"
      using True "1.prems" by (intro "1.IH") simp_all
    also have "take (i + 1) (k[i := - numeric_limits_max]) = take i k @ [- numeric_limits_max]"
      using True "1.prems" by (simp add: take_Suc_conv_app_nth)
    also have "(take i k @ [- numeric_limits_max]) @ replicate (D + 1 - (i + 1)) (- numeric_limits_max)
        = take i k @ replicate (Suc (D + 1 - (i + 1))) (- numeric_limits_max)"
      by simp
    also have "Suc (D + 1 - (i + 1)) = D + 1 - i"
      using True by simp
    finally show ?thesis .
  next
    case False
    with "1.prems" have "i = D + 1" by simp
    then show ?thesis using "1.prems" by (subst fill_empty_key.simps) simp
  qed
qed

lemma fill_empty_key_any:
  "length k = D + 1 \<Longrightarrow> fill_empty_key D 0 k = replicate (D + 1) (- numeric_limits_max)"
  using fill_empty_key_from [of 0 D k] by simp

lemma empty_key_new:
  "empty_key_hm (map_hm (CoordIndexMap_new D :: 'i::len CoordIndexMap)) =
     Some (replicate (D + 1) (- numeric_limits_max))"
  by (simp add: CoordIndexMap_new_def set_empty_key_def fill_empty_key_any)

lemma entries_new:
  "entries (map_hm (CoordIndexMap_new D :: 'i::len CoordIndexMap)) = Map.empty"
  by (simp add: CoordIndexMap_new_def set_empty_key_def dense_hash_map_new_def)

lemma sint_neg_max:
  "sint (- numeric_limits_max :: 'i::len word) = - (2 ^ (LENGTH('i) - 1) - 1)"
proof -
  let ?n = "LENGTH('i) - 1"
  have pos: "(0::int) < 2 ^ ?n" by simp
  have "- numeric_limits_max = (word_of_int (- (2 ^ ?n - 1)) :: 'i word)"
    by (simp only: numeric_limits_max_def wi_hom_neg)
  then have "sint (- numeric_limits_max :: 'i word) = signed_take_bit ?n (- (2 ^ ?n - 1 :: int))"
    by (simp only: sint_sbintrunc')
  also have "\<dots> = - (2 ^ ?n - 1)"
    using pos by (intro signed_take_bit_int_eq_self) linarith+
  finally show ?thesis .
qed

lemma sint_extreme_negative:
  "sint (extreme_negative :: 'i::len word) = - (2 ^ (LENGTH('i) - 1))"
proof -
  let ?n = "LENGTH('i) - 1"
  have pos: "(0::int) < 2 ^ ?n" by simp
  have "sint (extreme_negative :: 'i word) = signed_take_bit ?n (- (2 ^ ?n :: int))"
    by (simp only: extreme_negative_def sint_sbintrunc')
  also have "\<dots> = - (2 ^ ?n)"
    using pos by (intro signed_take_bit_int_eq_self) linarith+
  finally show ?thesis .
qed

lemma neg_max_not_extreme: "(- numeric_limits_max :: 'i::len word) \<noteq> extreme_negative"
proof
  assume "(- numeric_limits_max :: 'i word) = extreme_negative"
  then have "sint (- numeric_limits_max :: 'i word) = sint (extreme_negative :: 'i word)"
    by (rule arg_cong)
  then show False
    by (simp add: sint_neg_max sint_extreme_negative)
qed

lemma neq_replicate:
  "length c = n \<Longrightarrow> (c \<noteq> replicate n v) = (\<exists>i < n. c ! i \<noteq> v)"
  by (auto simp: list_eq_iff_nth_eq)

text \<open>
  C9, as stated, fails: the components of the empty key are \<^verbatim>\<open>-max()\<close>, which is
  \<open>- 2147483647\<close> for \<^verbatim>\<open>int32_t\<close>, and not the extreme negative value
  \<open>- 2147483648\<close>.
\<close>

theorem sentinel_is_not_extreme_negative:
  "empty_key_hm (map_hm (CoordIndexMap_new 3 :: 32 CoordIndexMap))
     \<noteq> Some (replicate (3 + 1) extreme_negative)
   \<and> map sint (the (empty_key_hm (map_hm (CoordIndexMap_new 3 :: 32 CoordIndexMap))))
     = [- 2147483647, - 2147483647, - 2147483647, - 2147483647]
   \<and> sint (extreme_negative :: 32 word) = - 2147483648"
proof -
  have k: "empty_key_hm (map_hm (CoordIndexMap_new 3 :: 32 CoordIndexMap))
      = Some (replicate (3 + 1) (- numeric_limits_max))"
    by (rule empty_key_new)
  have r: "replicate 4 x = [x, x, x, x]" for x :: "'a"
    by (simp add: eval_nat_numeral)
  have a: "sint (- numeric_limits_max :: 32 word) = - 2147483647"
    by (simp add: sint_neg_max)
  have b: "sint (extreme_negative :: 32 word) = - 2147483648"
    by (simp add: sint_extreme_negative)
  have c: "(- numeric_limits_max :: 32 word) \<noteq> extreme_negative"
    by (rule neg_max_not_extreme)
  show ?thesis
    using a b c by (simp add: k r)
qed

lemma CoordIndexMap_new_eq:
  "(CoordIndexMap_new D :: 'i::len CoordIndexMap) =
     \<lparr>map_hm = \<lparr>entries = Map.empty,
                 empty_key_hm = Some (replicate (D + 1) (- numeric_limits_max))\<rparr>\<rparr>"
  by (simp add: CoordIndexMap_new_def set_empty_key_def dense_hash_map_new_def
      fill_empty_key_any)

lemma insert_coord_sentinel:
  assumes "empty_key_hm (map_hm m) = Some s" and "s \<notin> dom (entries (map_hm m))"
  shows "insert_coord s m = Inl EmptyKeyInserted"
  using assms by (simp add: insert_coord_def insert_hm_def domIff)

lemma insert_coord_keeps:
  assumes "insert_coord c m = Inr (index, m')"
    and "empty_key_hm (map_hm m) = Some s" and "s \<notin> dom (entries (map_hm m))"
  shows "empty_key_hm (map_hm m') = Some s
    \<and> dom (entries (map_hm m')) = insert c (dom (entries (map_hm m)))
    \<and> c \<noteq> s"
proof (cases "entries (map_hm m) c")
  case None
  with assms show ?thesis
    by (auto simp: insert_coord_def insert_hm_def split: if_splits)
next
  case (Some i)
  with assms show ?thesis
    by (auto simp: insert_coord_def)
qed

lemma insert_coord_error:
  assumes "insert_coord c m = Inl e" and "empty_key_hm (map_hm m) = Some s"
  shows "e = EmptyKeyInserted \<and> c = s"
  using assms
  by (auto simp: insert_coord_def insert_hm_def split: option.splits if_splits)

lemma insert_coords_keeps:
  "insert_coords cs m = Inr m' \<Longrightarrow>
   empty_key_hm (map_hm m) = Some s \<Longrightarrow> s \<notin> dom (entries (map_hm m)) \<Longrightarrow>
   empty_key_hm (map_hm m') = Some s
   \<and> dom (entries (map_hm m')) = dom (entries (map_hm m)) \<union> set cs
   \<and> s \<notin> dom (entries (map_hm m'))"
proof (induction cs arbitrary: m)
  case Nil
  then show ?case by simp
next
  case (Cons c cs)
  from Cons.prems(1) obtain index m1 where
    one: "insert_coord c m = Inr (index, m1)" and rest: "insert_coords cs m1 = Inr m'"
    by (auto split: sum.splits)
  note k = insert_coord_keeps [OF one Cons.prems(2,3)]
  from k Cons.prems(3) have "s \<notin> dom (entries (map_hm m1))" by auto
  with Cons.IH [OF rest] k have "empty_key_hm (map_hm m') = Some s
      \<and> dom (entries (map_hm m')) = dom (entries (map_hm m1)) \<union> set cs
      \<and> s \<notin> dom (entries (map_hm m'))"
    by blast
  with k show ?case by auto
qed

lemma insert_coords_sentinel:
  "s \<in> set cs \<Longrightarrow>
   empty_key_hm (map_hm m) = Some s \<Longrightarrow> s \<notin> dom (entries (map_hm m)) \<Longrightarrow>
   insert_coords cs m = Inl EmptyKeyInserted"
proof (induction cs arbitrary: m)
  case Nil
  then show ?case by simp
next
  case (Cons c cs)
  show ?case
  proof (cases "insert_coord c m")
    case (Inl e)
    with insert_coord_error [OF Inl Cons.prems(2)] show ?thesis by simp
  next
    case (Inr r)
    obtain index m1 where r: "r = (index, m1)" by (cases r)
    note one = Inr [unfolded r]
    note k = insert_coord_keeps [OF one Cons.prems(2,3)]
    from k Cons.prems(1) have "s \<in> set cs" by auto
    moreover from k Cons.prems(3) have "s \<notin> dom (entries (map_hm m1))" by auto
    ultimately have "insert_coords cs m1 = Inl EmptyKeyInserted"
      using k by (intro Cons.IH) simp_all
    with one show ?thesis by simp
  qed
qed

text \<open>
  C9, amended. A freshly constructed \<^verbatim>\<open>CoordIndexMap\<close> reserves exactly one sentinel as
  the empty key of its hash map: the coordinate whose \<open>D + 1\<close> components all equal the
  negated maximum of the index type, one above its extreme negative value. The
  sentinel is never a real key: the fresh map holds no key, inserting the sentinel is
  refused with an error, before and after any insertions, a sequence of insertions
  that contains it fails, and after a sequence that succeeds the keys are exactly the
  inserted coordinates, each of which differs from the sentinel in at least one
  component.
\<close>

theorem sentinel_is_negated_max:
  "empty_key_hm (map_hm (CoordIndexMap_new D :: 'i::len CoordIndexMap))
     = Some (replicate (D + 1) (- numeric_limits_max))
   \<and> sint (- numeric_limits_max :: 'i word) = - (2 ^ (LENGTH('i) - 1) - 1)
   \<and> sint (- numeric_limits_max :: 'i word) = sint (extreme_negative :: 'i word) + 1
   \<and> entries (map_hm (CoordIndexMap_new D :: 'i CoordIndexMap)) = Map.empty
   \<and> insert_coord (replicate (D + 1) (- numeric_limits_max))
        (CoordIndexMap_new D :: 'i CoordIndexMap) = Inl EmptyKeyInserted
   \<and> (\<forall>cs m. insert_coords cs (CoordIndexMap_new D :: 'i CoordIndexMap) = Inr m \<longrightarrow>
        empty_key_hm (map_hm m) = Some (replicate (D + 1) (- numeric_limits_max))
        \<and> dom (entries (map_hm m)) = set cs
        \<and> replicate (D + 1) (- numeric_limits_max) \<notin> dom (entries (map_hm m))
        \<and> insert_coord (replicate (D + 1) (- numeric_limits_max)) m = Inl EmptyKeyInserted
        \<and> (\<forall>c \<in> set cs. c \<noteq> replicate (D + 1) (- numeric_limits_max)
             \<and> (length c = D + 1 \<longrightarrow> (\<exists>i < D + 1. c ! i \<noteq> - numeric_limits_max))))
   \<and> (\<forall>cs. replicate (D + 1) (- numeric_limits_max) \<in> set cs \<longrightarrow>
        insert_coords cs (CoordIndexMap_new D :: 'i CoordIndexMap) = Inl EmptyKeyInserted)"
proof -
  let ?s = "replicate (D + 1) (- numeric_limits_max :: 'i word)"
  let ?new = "CoordIndexMap_new D :: 'i CoordIndexMap"
  have k: "empty_key_hm (map_hm ?new) = Some ?s"
    by (rule empty_key_new)
  have n: "entries (map_hm ?new) = Map.empty"
    by (rule entries_new)
  have fresh: "?s \<notin> dom (entries (map_hm ?new))"
    by (simp add: n)
  have v: "sint (- numeric_limits_max :: 'i word) = - (2 ^ (LENGTH('i) - 1) - 1)"
    by (rule sint_neg_max)
  have x: "sint (- numeric_limits_max :: 'i word) = sint (extreme_negative :: 'i word) + 1"
    by (simp add: sint_neg_max sint_extreme_negative)
  have r: "insert_coord ?s ?new = Inl EmptyKeyInserted"
    using k fresh by (rule insert_coord_sentinel)
  have after: "empty_key_hm (map_hm m) = Some ?s
      \<and> dom (entries (map_hm m)) = set cs
      \<and> ?s \<notin> dom (entries (map_hm m))
      \<and> insert_coord ?s m = Inl EmptyKeyInserted
      \<and> (\<forall>c \<in> set cs. c \<noteq> ?s
           \<and> (length c = D + 1 \<longrightarrow> (\<exists>i < D + 1. c ! i \<noteq> - numeric_limits_max)))"
    if ok: "insert_coords cs ?new = Inr m" for cs m
  proof -
    note kk = insert_coords_keeps [OF ok k fresh]
    have e: "empty_key_hm (map_hm m) = Some ?s"
      by (rule kk [THEN conjunct1])
    have o: "?s \<notin> dom (entries (map_hm m))"
      by (rule kk [THEN conjunct2, THEN conjunct2])
    have "dom (entries (map_hm m)) = dom (entries (map_hm ?new)) \<union> set cs"
      by (rule kk [THEN conjunct2, THEN conjunct1])
    then have d: "dom (entries (map_hm m)) = set cs"
      by (simp only: n dom_empty Un_empty_left)
    from e o have i: "insert_coord ?s m = Inl EmptyKeyInserted"
      by (rule insert_coord_sentinel)
    have "c \<noteq> ?s \<and> (length c = D + 1 \<longrightarrow> (\<exists>i < D + 1. c ! i \<noteq> - numeric_limits_max))"
      if "c \<in> set cs" for c
    proof -
      from that d o have ne: "c \<noteq> ?s" by auto
      with neq_replicate [of c "D + 1" "- numeric_limits_max"] show ?thesis by blast
    qed
    with e d o i show ?thesis by blast
  qed
  have batch: "insert_coords cs ?new = Inl EmptyKeyInserted" if "?s \<in> set cs" for cs
    using that k fresh by (rule insert_coords_sentinel)
  from k v x n r after batch show ?thesis by blast
qed

text \<open>
  C9 for \<open>D = 1\<close> and \<^verbatim>\<open>int32_t\<close>: inserting \<open>(0, 0)\<close>, \<open>(1, 0)\<close>, \<open>(0, 0)\<close> succeeds and
  leaves two keys, neither of them the sentinel.
\<close>

theorem sentinel_is_negated_max_witness:
  "insert_coords [[0, 0], [1, 0], [0, 0]] (CoordIndexMap_new 1 :: 32 CoordIndexMap)
     = Inr \<lparr>map_hm = \<lparr>entries = [[0, 0] \<mapsto> 0, [1, 0] \<mapsto> 1],
                      empty_key_hm = Some (replicate (1 + 1) (- numeric_limits_max))\<rparr>\<rparr>
   \<and> dom [[0, 0 :: 32 word] \<mapsto> (0 :: 64 word), [1, 0] \<mapsto> 1] = set [[0, 0], [1, 0], [0, 0]]
   \<and> replicate (1 + 1) (- numeric_limits_max) \<notin> set [[0, 0 :: 32 word], [1, 0], [0, 0]]
   \<and> (\<exists>i < 1 + 1. [1, 0 :: 32 word] ! i \<noteq> - numeric_limits_max)"
proof -
  let ?m = "\<lparr>map_hm = \<lparr>entries = [[0, 0 :: 32 word] \<mapsto> (0 :: 64 word), [1, 0] \<mapsto> 1],
      empty_key_hm = Some (replicate (1 + 1) (- numeric_limits_max))\<rparr>\<rparr>"
  have z: "(- numeric_limits_max :: 32 word) \<noteq> 0" "(- numeric_limits_max :: 32 word) \<noteq> 1"
    by (simp_all add: numeric_limits_max_def)
  have run: "insert_coords [[0, 0], [1, 0], [0, 0]] (CoordIndexMap_new 1 :: 32 CoordIndexMap)
      = Inr ?m"
    using z by (simp add: CoordIndexMap_new_eq insert_coord_def insert_hm_def size_cim_def)
  note t = sentinel_is_negated_max [where D = 1 and 'i = 32]
  from t run have a: "dom (entries (map_hm ?m)) = set [[0, 0], [1, 0], [0, 0]]"
    and b: "\<forall>c \<in> set [[0, 0 :: 32 word], [1, 0], [0, 0]].
        c \<noteq> replicate (1 + 1) (- numeric_limits_max)
        \<and> (length c = 1 + 1 \<longrightarrow> (\<exists>i < 1 + 1. c ! i \<noteq> - numeric_limits_max))"
    by blast+
  from a have a': "dom [[0, 0 :: 32 word] \<mapsto> (0 :: 64 word), [1, 0] \<mapsto> 1]
      = set [[0, 0], [1, 0], [0, 0]]"
    by simp
  from b have c: "replicate (1 + 1) (- numeric_limits_max) \<notin> set [[0, 0 :: 32 word], [1, 0], [0, 0]]"
    by blast
  from b have d: "\<exists>i < 1 + 1. [1, 0 :: 32 word] ! i \<noteq> - numeric_limits_max"
    by simp
  from run a' c d show ?thesis by (intro conjI)
qed

section \<open>The concrete scope, evaluated\<close>

lemma sample_hashes:
  "hash_vec [1, 1, 1 :: 32 word] = 15657235899933806144"
  "hash_vec [2, 2, 2 :: 32 word] = 15656276026282567165"
  "hash_vec [4, 4, 4 :: 32 word] = 15654369473119627739"
  "hash_vec [3, 3, 3 :: 32 word] = 15655324948724353878"
  "hash_vec [0, 0, 0 :: 32 word] = 15658191375538532279"
  by (simp_all add: hash_vec_def uint64_of_def)

lemma sample_out_dists:
  "ComputeOutPixelDist_spec [2, 2, 2 :: 32 word] [2, 2, 2] True = [1, 1, 1]"
  "ComputeOutPixelDist_spec [2, 2, 2 :: 32 word] [2, 2, 2] False = [4, 4, 4]"
  by (simp_all add: ComputeOutPixelDist_spec_def signed_divide_int_def)

lemma sample_tr_eq:
  "sample_tr =
     \<lparr>pixel_dists = [2, 2, 2], out_pixel_dists = [1, 1, 1],
      pixel_dist_hash = 15656276026282567165, out_pixel_dist_hash = 15657235899933806144,
      stride_hash = 15656276026282567165, kernel_size_hash = 15655324948724353878,
      dilation_hash = 15657235899933806144,
      key = [15656276026282567165, 15656276026282567165, 15655324948724353878,
             15657235899933806144, 1],
      strides = [2, 2, 2], kernel_size = [3, 3, 3], dilations = [1, 1, 1]\<rparr>"
  by (simp add: sample_tr_def sample_a_def INITIALIZE_DEFAULT_VARS_AND_HASHES_def
      sample_args_def sample_externs_def ToArray_def sample_hashes sample_out_dists Let_def)

lemma sample_fw_eq:
  "sample_fw =
     \<lparr>pixel_dists = [2, 2, 2], out_pixel_dists = [4, 4, 4],
      pixel_dist_hash = 15656276026282567165, out_pixel_dist_hash = 15654369473119627739,
      stride_hash = 15656276026282567165, kernel_size_hash = 15655324948724353878,
      dilation_hash = 15657235899933806144,
      key = [15656276026282567165, 15656276026282567165, 15655324948724353878,
             15657235899933806144, 0],
      strides = [2, 2, 2], kernel_size = [3, 3, 3], dilations = [1, 1, 1]\<rparr>"
  by (simp add: sample_fw_def sample_a_def INITIALIZE_DEFAULT_VARS_AND_HASHES_def
      sample_args_def sample_externs_def ToArray_def sample_hashes sample_out_dists Let_def)

lemma sample_gl_eq:
  "sample_gl =
     \<lparr>pixel_dists = [2, 2, 2], out_pixel_dists = [0, 0, 0],
      pixel_dist_hash = 15656276026282567165, out_pixel_dist_hash = 15658191375538532279,
      stride_hash = 15658191375538532279, kernel_size_hash = 15658191375538532279,
      dilation_hash = 15658191375538532279,
      key = [15656276026282567165, 15658191375538532279, 15658191375538532279,
             15658191375538532279, 0]\<rparr>"
proof -
  have z: "Arr_zero 3 = [0, 0, 0 :: 32 word]"
    by (simp add: Arr_zero_def eval_nat_numeral)
  show ?thesis
    by (simp add: sample_gl_def sample_a_def INITIALIZE_DEFAULT_GLOBAL_VARS_AND_HASHES_def
        sample_args_def ToArray_def z sample_hashes Let_def)
qed

lemma sample_scope_eq:
  "coord2inds sample_scope =
     [15656276026282567165 \<mapsto> CoordIndexMap_new 3, 15657235899933806144 \<mapsto> CoordIndexMap_new 3]"
  "in_maps sample_scope = Map.empty"
  "out_maps sample_scope = Map.empty"
  by (simp_all add: sample_scope_def coarse_scope_def register_coords_def Metadata_new_def
      sample_hashes)

lemma sample_tr_state:
  "coord2inds sample_scope (pixel_dist_hash sample_tr) = Some (CoordIndexMap_new 3)"
  "coord2inds sample_scope (out_pixel_dist_hash sample_tr) = Some (CoordIndexMap_new 3)"
  "in_maps sample_scope (key sample_tr) = None"
  by (simp_all add: sample_tr_eq sample_scope_eq)

lemma sample_fw_state:
  "coord2inds sample_scope (pixel_dist_hash sample_fw) = Some (CoordIndexMap_new 3)"
  "coord2inds sample_scope (out_pixel_dist_hash sample_fw) = None"
  "in_maps sample_scope (key sample_fw) = None"
  by (simp_all add: sample_fw_eq sample_scope_eq)

lemma sample_gl_state:
  "coord2inds sample_scope (pixel_dist_hash sample_gl) = Some (CoordIndexMap_new 3)"
  "coord2inds sample_scope (out_pixel_dist_hash sample_gl) = None"
  "in_maps sample_scope (key sample_gl) = None"
  by (simp_all add: sample_gl_eq sample_scope_eq)

lemma sample_tr_ret:
  "ret (INITIALIZE_OUT_COORDS_AND_KERNEL_MAP 3 sample_externs True sample_tr sample_a sample_scope)
     = None"
  by (simp add: macro_tr_miss [OF sample_tr_state])

lemma sample_fw_ret:
  "ret (INITIALIZE_OUT_COORDS_AND_KERNEL_MAP 3 sample_externs False sample_fw sample_a sample_scope)
     = None"
  by (simp add: macro_fw_new_miss [OF sample_fw_state])

lemma sample_gl_ret:
  "ret (INITIALIZE_GLOBAL_OUT_COORDS_AND_KERNEL_MAP 3 sample_externs sample_gl sample_scope) = None"
  by (simp add: global_new_miss [OF sample_gl_state])

section \<open>The backward check\<close>

text \<open>
  C4. \<^verbatim>\<open>BACKWARD_PROP_CHECK\<close> never changes the scope and calls no builder. When the
  coordinate map of the input resolution, that of the output resolution, or the in/out
  map of the key is absent, it returns \<open>- 1\<close> to the caller; when all three are there,
  control falls through. The same holds behind either initialisation macro.
\<close>

theorem backward_check_never_inserts:
  "meta (BACKWARD_PROP_CHECK v md) = md
   \<and> calls (BACKWARD_PROP_CHECK v md) = []
   \<and> (coord2inds md (pixel_dist_hash v) = None
        \<or> coord2inds md (out_pixel_dist_hash v) = None
        \<or> in_maps md (key v) = None
      \<longrightarrow> ret (BACKWARD_PROP_CHECK v md) = Some (- 1))
   \<and> (coord2inds md (pixel_dist_hash v) \<noteq> None
        \<and> coord2inds md (out_pixel_dist_hash v) \<noteq> None
        \<and> in_maps md (key v) \<noteq> None
      \<longrightarrow> ret (BACKWARD_PROP_CHECK v md) = None)
   \<and> meta (backward_request D ext t a md) = md
   \<and> meta (global_backward_request D a md) = md"
  by (simp add: backward_check_eq backward_request_def global_backward_request_def)

text \<open>
  C4 on \<open>sample_scope\<close>: before the transposed forward pass the check returns \<open>- 1\<close>
  for want of the in/out map, after it the check passes.
\<close>

theorem backward_check_never_inserts_witness:
  "in_maps sample_scope (key sample_tr) = None
   \<and> ret (BACKWARD_PROP_CHECK sample_tr sample_scope) = Some (- 1)
   \<and> meta (BACKWARD_PROP_CHECK sample_tr sample_scope) = sample_scope
   \<and> (let md1 = meta (INITIALIZE_OUT_COORDS_AND_KERNEL_MAP 3 sample_externs True sample_tr
                      sample_a sample_scope)
      in coord2inds md1 (pixel_dist_hash sample_tr) \<noteq> None
         \<and> coord2inds md1 (out_pixel_dist_hash sample_tr) \<noteq> None
         \<and> in_maps md1 (key sample_tr) \<noteq> None
         \<and> ret (BACKWARD_PROP_CHECK sample_tr md1) = None)"
proof -
  let ?md1 = "meta (INITIALIZE_OUT_COORDS_AND_KERNEL_MAP 3 sample_externs True sample_tr
                sample_a sample_scope)"
  note h = macro_done [OF sample_tr_ret]
  from backward_check_never_inserts [of sample_tr sample_scope]
    backward_check_never_inserts [of sample_tr ?md1] h sample_tr_state(3)
  show ?thesis
    unfolding Let_def by blast
qed

lemma coarse_scope_eq:
  "coord2inds coarse_scope = [15656276026282567165 \<mapsto> CoordIndexMap_new 3]"
  "in_maps coarse_scope = Map.empty"
  "out_maps coarse_scope = Map.empty"
  by (simp_all add: coarse_scope_def register_coords_def Metadata_new_def sample_hashes)

lemma coarse_tr_state:
  "coord2inds coarse_scope (pixel_dist_hash sample_tr) = Some (CoordIndexMap_new 3)"
  "coord2inds coarse_scope (out_pixel_dist_hash sample_tr) = None"
  by (simp_all add: sample_tr_eq coarse_scope_eq)

section \<open>The transposed path and the coordinate maps\<close>

text \<open>
  C6. With \<^verbatim>\<open>IS_TRANSPOSE\<close> the macro leaves \<^verbatim>\<open>coord2inds\<close> as it found it. When no
  coordinate map is registered under the hash of the output resolution, it returns
  \<open>- 1\<close>, changes nothing and calls no builder; when the input and the output map are
  there and the key is new, the in/out map is built by
  \<^verbatim>\<open>CreateInOutPerKernelTranspose\<close> from these two maps. Without \<^verbatim>\<open>IS_TRANSPOSE\<close> a
  missing output map is created by \<^verbatim>\<open>CreateOutputCoordIndexMap\<close> from the input map and
  stored under the hash of the output resolution.
\<close>

theorem transposed_path_creates_no_coords:
  "coord2inds (meta (INITIALIZE_OUT_COORDS_AND_KERNEL_MAP D ext True v a md)) = coord2inds md
   \<and> (coord2inds md (out_pixel_dist_hash v) = None \<longrightarrow>
        ret (INITIALIZE_OUT_COORDS_AND_KERNEL_MAP D ext True v a md) = Some (- 1)
        \<and> meta (INITIALIZE_OUT_COORDS_AND_KERNEL_MAP D ext True v a md) = md
        \<and> calls (INITIALIZE_OUT_COORDS_AND_KERNEL_MAP D ext True v a md) = [])
   \<and> (\<forall>ci co. coord2inds md (pixel_dist_hash v) = Some ci
        \<and> coord2inds md (out_pixel_dist_hash v) = Some co \<and> in_maps md (key v) = None \<longrightarrow>
        ret (INITIALIZE_OUT_COORDS_AND_KERNEL_MAP D ext True v a md) = None
        \<and> calls (INITIALIZE_OUT_COORDS_AND_KERNEL_MAP D ext True v a md)
            = [InOutPerKernelTranspose]
        \<and> in_maps (meta (INITIALIZE_OUT_COORDS_AND_KERNEL_MAP D ext True v a md)) (key v)
            = Some (fst (CreateInOutPerKernelTranspose ext ci co (out_pixel_dists v)
                (kernel_size v) (dilations v) (region_type a) (p_offset a) (n_offset a)))
        \<and> out_maps (meta (INITIALIZE_OUT_COORDS_AND_KERNEL_MAP D ext True v a md)) (key v)
            = Some (snd (CreateInOutPerKernelTranspose ext ci co (out_pixel_dists v)
                (kernel_size v) (dilations v) (region_type a) (p_offset a) (n_offset a))))
   \<and> (\<forall>ci. coord2inds md (pixel_dist_hash v) = Some ci
        \<and> coord2inds md (out_pixel_dist_hash v) = None \<longrightarrow>
        ret (INITIALIZE_OUT_COORDS_AND_KERNEL_MAP D ext False v a md) = None
        \<and> hd (calls (INITIALIZE_OUT_COORDS_AND_KERNEL_MAP D ext False v a md))
            = OutputCoordIndexMap
        \<and> coord2inds (meta (INITIALIZE_OUT_COORDS_AND_KERNEL_MAP D ext False v a md))
             (out_pixel_dist_hash v)
            = Some (CreateOutputCoordIndexMap ext ci (pixel_dists v) (strides v)))"
proof -
  have no_out: "ret (INITIALIZE_OUT_COORDS_AND_KERNEL_MAP D ext True v a md) = Some (- 1)
      \<and> meta (INITIALIZE_OUT_COORDS_AND_KERNEL_MAP D ext True v a md) = md
      \<and> calls (INITIALIZE_OUT_COORDS_AND_KERNEL_MAP D ext True v a md) = []"
    if "coord2inds md (out_pixel_dist_hash v) = None"
    using that
    by (cases rule: macro_cases [where md = md and v = v and t = True])
      (simp_all add: macro_eqs)
  have fw: "ret (INITIALIZE_OUT_COORDS_AND_KERNEL_MAP D ext False v a md) = None
      \<and> hd (calls (INITIALIZE_OUT_COORDS_AND_KERNEL_MAP D ext False v a md))
          = OutputCoordIndexMap
      \<and> coord2inds (meta (INITIALIZE_OUT_COORDS_AND_KERNEL_MAP D ext False v a md))
           (out_pixel_dist_hash v)
          = Some (CreateOutputCoordIndexMap ext ci (pixel_dists v) (strides v))"
    if "coord2inds md (pixel_dist_hash v) = Some ci"
      and "coord2inds md (out_pixel_dist_hash v) = None" for ci
    using that
    by (cases rule: macro_cases [where md = md and v = v and t = False])
      (simp_all add: macro_eqs)
  show ?thesis
    using no_out fw by (simp add: macro_transposed_coords macro_tr_miss)
qed

text \<open>
  C6 on the sample scopes: the transposed pass fails on the scope with no map at
  resolution \<open>(1, 1, 1)\<close> and builds on the scope that has one; the strided pass
  creates the map at resolution \<open>(4, 4, 4)\<close>.
\<close>

theorem transposed_path_creates_no_coords_witness:
  "coord2inds coarse_scope (out_pixel_dist_hash sample_tr) = None
   \<and> ret (INITIALIZE_OUT_COORDS_AND_KERNEL_MAP 3 sample_externs True sample_tr sample_a
        coarse_scope) = Some (- 1)
   \<and> coord2inds sample_scope (pixel_dist_hash sample_tr) = Some (CoordIndexMap_new 3)
   \<and> coord2inds sample_scope (out_pixel_dist_hash sample_tr) = Some (CoordIndexMap_new 3)
   \<and> in_maps sample_scope (key sample_tr) = None
   \<and> calls (INITIALIZE_OUT_COORDS_AND_KERNEL_MAP 3 sample_externs True sample_tr sample_a
        sample_scope) = [InOutPerKernelTranspose]
   \<and> coord2inds sample_scope (pixel_dist_hash sample_fw) = Some (CoordIndexMap_new 3)
   \<and> coord2inds sample_scope (out_pixel_dist_hash sample_fw) = None
   \<and> coord2inds (meta (INITIALIZE_OUT_COORDS_AND_KERNEL_MAP 3 sample_externs False sample_fw
        sample_a sample_scope)) (out_pixel_dist_hash sample_fw)
       = Some (CreateOutputCoordIndexMap sample_externs (CoordIndexMap_new 3)
           (pixel_dists sample_fw) (strides sample_fw))"
  using transposed_path_creates_no_coords [of 3 sample_externs sample_tr sample_a coarse_scope]
    transposed_path_creates_no_coords [of 3 sample_externs sample_tr sample_a sample_scope]
    transposed_path_creates_no_coords [of 3 sample_externs sample_fw sample_a sample_scope]
    coarse_tr_state sample_tr_state sample_fw_state
  by blast

lemma fresh_tr_state:
  "coord2inds (Metadata_new :: 32 Metadata) (pixel_dist_hash sample_tr) = None"
  by (simp add: Metadata_new_def)

section \<open>What a failure returns\<close>

text \<open>
  C7, as stated, fails: the returned value does not tell the kinds of failure apart.
  A missing resolution (on the fresh scope), a missing output coordinate map (on
  \<open>coarse_scope\<close>), a missing forward in/out map (the backward check on
  \<open>sample_scope\<close>) and a size mismatch caught by \<^verbatim>\<open>ASSERT_EQ\<close> all return \<open>- 1\<close>.
\<close>

theorem failures_share_one_code:
  "ret (INITIALIZE_OUT_COORDS_AND_KERNEL_MAP 3 sample_externs True sample_tr sample_a
      Metadata_new) = Some (- 1)
   \<and> ret (INITIALIZE_OUT_COORDS_AND_KERNEL_MAP 3 sample_externs True sample_tr sample_a
      coarse_scope) = Some (- 1)
   \<and> ret (BACKWARD_PROP_CHECK sample_tr sample_scope) = Some (- 1)
   \<and> ret (ASSERT_EQ ''nrows'' 5 ''out_nrows'' 4 sample_scope) = Some (- 1)"
  by (simp add: macro_no_in [OF fresh_tr_state] macro_tr_no_out [OF coarse_tr_state]
      backward_check_eq sample_tr_state ASSERT_EQ_def)

text \<open>
  C7, amended. The macros detect a missing input resolution, a missing output coordinate
  map on the transposed path, a missing forward map in the backward check and a
  mismatch of the two operands of \<^verbatim>\<open>ASSERT_EQ\<close>; each is reported by the same return
  value \<open>- 1\<close>, and whenever a macro returns, the scope is as it was before.
\<close>

theorem failures_return_minus_one:
  "(coord2inds md (pixel_dist_hash v) = None \<or> t \<and> coord2inds md (out_pixel_dist_hash v) = None
      \<longrightarrow> ret (INITIALIZE_OUT_COORDS_AND_KERNEL_MAP D ext t v a md) = Some (- 1))
   \<and> (coord2inds md (pixel_dist_hash v) = None
      \<longrightarrow> ret (INITIALIZE_GLOBAL_OUT_COORDS_AND_KERNEL_MAP D ext v md) = Some (- 1))
   \<and> (coord2inds md (pixel_dist_hash v) = None \<or> coord2inds md (out_pixel_dist_hash v) = None
        \<or> in_maps md (key v) = None
      \<longrightarrow> ret (BACKWARD_PROP_CHECK v md) = Some (- 1))
   \<and> (A \<noteq> B \<longrightarrow> ret (ASSERT_EQ nA A nB B md) = Some (- 1))
   \<and> (\<forall>r. ret (INITIALIZE_OUT_COORDS_AND_KERNEL_MAP D ext t v a md) = Some r \<longrightarrow>
         r = - 1 \<and> meta (INITIALIZE_OUT_COORDS_AND_KERNEL_MAP D ext t v a md) = md)
   \<and> (\<forall>r. ret (INITIALIZE_GLOBAL_OUT_COORDS_AND_KERNEL_MAP D ext v md) = Some r \<longrightarrow>
         r = - 1 \<and> meta (INITIALIZE_GLOBAL_OUT_COORDS_AND_KERNEL_MAP D ext v md) = md)
   \<and> (\<forall>r. ret (BACKWARD_PROP_CHECK v md) = Some r \<longrightarrow> r = - 1)
   \<and> meta (BACKWARD_PROP_CHECK v md) = md
   \<and> (\<forall>r. ret (ASSERT_EQ nA A nB B md) = Some r \<longrightarrow> r = - 1)
   \<and> meta (ASSERT_EQ nA A nB B md) = md"
proof -
  have m: "ret (INITIALIZE_OUT_COORDS_AND_KERNEL_MAP D ext t v a md) = Some (- 1)"
    if "coord2inds md (pixel_dist_hash v) = None \<or> t \<and> coord2inds md (out_pixel_dist_hash v) = None"
    using that
    by (cases rule: macro_cases [where md = md and v = v and t = t]) (auto simp: macro_eqs)
  have g: "ret (INITIALIZE_GLOBAL_OUT_COORDS_AND_KERNEL_MAP D ext v md) = Some (- 1)"
    if "coord2inds md (pixel_dist_hash v) = None"
    using that by (simp add: global_no_in)
  have b: "ret (BACKWARD_PROP_CHECK v md) = Some (- 1)"
    if "coord2inds md (pixel_dist_hash v) = None \<or> coord2inds md (out_pixel_dist_hash v) = None
        \<or> in_maps md (key v) = None"
    using that by (simp add: backward_check_eq)
  have q: "A \<noteq> B \<longrightarrow> ret (ASSERT_EQ nA A nB B md :: 'a outcome) = Some (- 1)"
    by (simp add: ASSERT_EQ_def)
  have mf: "r = - 1 \<and> meta (INITIALIZE_OUT_COORDS_AND_KERNEL_MAP D ext t v a md) = md"
    if "ret (INITIALIZE_OUT_COORDS_AND_KERNEL_MAP D ext t v a md) = Some r" for r
    using macro_fail [OF that] by simp
  have gf: "r = - 1 \<and> meta (INITIALIZE_GLOBAL_OUT_COORDS_AND_KERNEL_MAP D ext v md) = md"
    if "ret (INITIALIZE_GLOBAL_OUT_COORDS_AND_KERNEL_MAP D ext v md) = Some r" for r
    using global_fail [OF that] by simp
  have bf: "(\<forall>r. ret (BACKWARD_PROP_CHECK v md) = Some r \<longrightarrow> r = - 1)
      \<and> meta (BACKWARD_PROP_CHECK v md) = md"
    by (simp add: backward_check_eq)
  have qf: "(\<forall>r. ret (ASSERT_EQ nA A nB B md :: 'a outcome) = Some r \<longrightarrow> r = - 1)
      \<and> meta (ASSERT_EQ nA A nB B md) = md"
    by (simp add: ASSERT_EQ_def)
  from m g b q mf gf bf qf show ?thesis by blast
qed

text \<open>C7 on the sample scopes, at the four failures above.\<close>

theorem failures_return_minus_one_witness:
  "coord2inds (Metadata_new :: 32 Metadata) (pixel_dist_hash sample_tr) = None
   \<and> ret (INITIALIZE_OUT_COORDS_AND_KERNEL_MAP 3 sample_externs True sample_tr sample_a
        Metadata_new) = Some (- 1)
   \<and> meta (INITIALIZE_OUT_COORDS_AND_KERNEL_MAP 3 sample_externs True sample_tr sample_a
        Metadata_new) = Metadata_new
   \<and> ret (INITIALIZE_GLOBAL_OUT_COORDS_AND_KERNEL_MAP 3 sample_externs sample_tr
        Metadata_new) = Some (- 1)
   \<and> ret (BACKWARD_PROP_CHECK sample_tr (Metadata_new :: 32 Metadata)) = Some (- 1)
   \<and> (5 :: int) \<noteq> 4
   \<and> ret (ASSERT_EQ ''nrows'' 5 ''out_nrows'' 4 (Metadata_new :: 32 Metadata)) = Some (- 1)"
proof -
  have n: "(5 :: int) \<noteq> 4" by simp
  from failures_return_minus_one [of Metadata_new sample_tr True 3 sample_externs sample_a
      5 4 "''nrows''" "''out_nrows''"] fresh_tr_state n
  show ?thesis by blast
qed

section \<open>Clearing a scope\<close>

text \<open>
  C8. After \<^verbatim>\<open>clear()\<close> the three maps of the scope are empty, and every macro that
  looks a resolution up, whichever resolution it is and whether or not it was
  registered before, returns \<open>- 1\<close>; the forward macros report that the coordinate map
  does not exist. Nothing is read from the maps that were there.
\<close>

theorem clear_drops_every_map:
  "coord2inds (clear md) = Map.empty
   \<and> in_maps (clear md) = Map.empty
   \<and> out_maps (clear md) = Map.empty
   \<and> INITIALIZE_OUT_COORDS_AND_KERNEL_MAP D ext t v a (clear md) =
       \<lparr>ret = Some (- 1), meta = clear md,
        cerr = ''The coord map doesn't exists for the given pixel dists'' @ endl, calls = []\<rparr>
   \<and> INITIALIZE_GLOBAL_OUT_COORDS_AND_KERNEL_MAP D ext gv (clear md) =
       \<lparr>ret = Some (- 1), meta = clear md,
        cerr = ''The coord map doesn't exists for the given pixel dists'' @ endl, calls = []\<rparr>
   \<and> ret (BACKWARD_PROP_CHECK gv (clear md)) = Some (- 1)
   \<and> ret (forward_request D ext t a (clear md)) = Some (- 1)
   \<and> ret (global_request D ext a (clear md)) = Some (- 1)"
proof -
  have c: "coord2inds (clear md) = Map.empty" "in_maps (clear md) = Map.empty"
    "out_maps (clear md) = Map.empty"
    by (simp_all add: clear_def)
  have n: "coord2inds (clear md) h = None" for h
    by (simp add: c)
  show ?thesis
    by (simp add: c macro_no_in [OF n] global_no_in [OF n] backward_check_eq
        forward_request_def global_request_def)
qed

section \<open>Asking for the same map twice\<close>

lemma macro_keeps:
  "(coord2inds md h \<noteq> None \<longrightarrow>
      coord2inds (meta (INITIALIZE_OUT_COORDS_AND_KERNEL_MAP D ext t v a md)) h \<noteq> None)
   \<and> (in_maps md k \<noteq> None \<longrightarrow>
      in_maps (meta (INITIALIZE_OUT_COORDS_AND_KERNEL_MAP D ext t v a md)) k = in_maps md k
      \<and> out_maps (meta (INITIALIZE_OUT_COORDS_AND_KERNEL_MAP D ext t v a md)) k = out_maps md k)"
  by (cases rule: macro_cases [where md = md and v = v and t = t]) (auto simp: macro_eqs)

lemma global_keeps:
  "(coord2inds md h \<noteq> None \<longrightarrow>
      coord2inds (meta (INITIALIZE_GLOBAL_OUT_COORDS_AND_KERNEL_MAP D ext v md)) h \<noteq> None)
   \<and> (in_maps md k \<noteq> None \<longrightarrow>
      in_maps (meta (INITIALIZE_GLOBAL_OUT_COORDS_AND_KERNEL_MAP D ext v md)) k = in_maps md k
      \<and> out_maps (meta (INITIALIZE_GLOBAL_OUT_COORDS_AND_KERNEL_MAP D ext v md)) k = out_maps md k)"
  by (cases rule: global_cases [where md = md and v = v]) (auto simp: global_eqs)

lemma call_keeps:
  assumes "e \<noteq> Clear"
  shows "(coord2inds md h \<noteq> None \<longrightarrow> coord2inds (meta (call D ext e md)) h \<noteq> None)
   \<and> (in_maps md k \<noteq> None \<longrightarrow>
      in_maps (meta (call D ext e md)) k = in_maps md k
      \<and> out_maps (meta (call D ext e md)) k = out_maps md k)"
proof (cases e)
  case (Forward t a)
  then show ?thesis
    using macro_keeps [of md h D ext t "INITIALIZE_DEFAULT_VARS_AND_HASHES D ext a t" a k]
    by (simp add: forward_request_def)
next
  case (Global a)
  then show ?thesis
    using global_keeps [of md h D ext "INITIALIZE_DEFAULT_GLOBAL_VARS_AND_HASHES D a" k]
    by (simp add: global_request_def)
next
  case (Backward t a)
  then show ?thesis by (simp add: backward_request_def backward_check_eq)
next
  case (GlobalBackward a)
  then show ?thesis by (simp add: global_backward_request_def backward_check_eq)
next
  case (Assert nA A nB B)
  then show ?thesis by (simp add: ASSERT_EQ_def)
next
  case Clear
  with assms show ?thesis by simp
next
  case (Register h' c)
  then show ?thesis by (simp add: register_coords_def)
qed

lemma run_keeps:
  "Clear \<notin> set es \<Longrightarrow>
   (coord2inds md h \<noteq> None \<longrightarrow> coord2inds (run D ext es md) h \<noteq> None)
   \<and> (in_maps md k \<noteq> None \<longrightarrow>
      in_maps (run D ext es md) k = in_maps md k
      \<and> out_maps (run D ext es md) k = out_maps md k)"
proof (induction es arbitrary: md)
  case Nil
  show ?case by simp
next
  case (Cons e es)
  from Cons.prems have e: "e \<noteq> Clear" and es: "Clear \<notin> set es"
    by auto
  note step = call_keeps [OF e, of md h D ext k]
  note rest = Cons.IH [OF es, of "meta (call D ext e md)"]
  show ?case
  proof (intro conjI impI)
    assume "coord2inds md h \<noteq> None"
    with step have "coord2inds (meta (call D ext e md)) h \<noteq> None" by blast
    with rest show "coord2inds (run D ext (e # es) md) h \<noteq> None" by simp
  next
    assume i: "in_maps md k \<noteq> None"
    with step have s: "in_maps (meta (call D ext e md)) k = in_maps md k"
      "out_maps (meta (call D ext e md)) k = out_maps md k" by blast+
    with i have "in_maps (meta (call D ext e md)) k \<noteq> None" by simp
    with rest have r: "in_maps (run D ext es (meta (call D ext e md))) k
        = in_maps (meta (call D ext e md)) k"
      "out_maps (run D ext es (meta (call D ext e md))) k
        = out_maps (meta (call D ext e md)) k" by blast+
    from r s show "in_maps (run D ext (e # es) md) k = in_maps md k" by simp
    from r s show "out_maps (run D ext (e # es) md) k = out_maps md k" by simp
  qed
qed

lemma macro_stores:
  assumes "ret (INITIALIZE_OUT_COORDS_AND_KERNEL_MAP D ext t v a md) = None"
  shows "\<exists>ci co.
     coord2inds md (pixel_dist_hash v) = Some ci
     \<and> coord2inds (meta (INITIALIZE_OUT_COORDS_AND_KERNEL_MAP D ext t v a md))
          (pixel_dist_hash v) = Some ci
     \<and> coord2inds (meta (INITIALIZE_OUT_COORDS_AND_KERNEL_MAP D ext t v a md))
          (out_pixel_dist_hash v) = Some co
     \<and> (case coord2inds md (out_pixel_dist_hash v) of
          Some c \<Rightarrow> co = c
        | None \<Rightarrow> \<not> t \<and> co = CreateOutputCoordIndexMap ext ci (pixel_dists v) (strides v))
     \<and> (in_maps md (key v) = None \<longrightarrow>
          in_maps (meta (INITIALIZE_OUT_COORDS_AND_KERNEL_MAP D ext t v a md)) (key v)
            = Some (fst (if t
                then CreateInOutPerKernelTranspose ext ci co (out_pixel_dists v)
                  (kernel_size v) (dilations v) (region_type a) (p_offset a) (n_offset a)
                else CreateInOutPerKernel ext ci co (pixel_dists v)
                  (kernel_size v) (dilations v) (region_type a) (p_offset a) (n_offset a)))
          \<and> out_maps (meta (INITIALIZE_OUT_COORDS_AND_KERNEL_MAP D ext t v a md)) (key v)
            = Some (snd (if t
                then CreateInOutPerKernelTranspose ext ci co (out_pixel_dists v)
                  (kernel_size v) (dilations v) (region_type a) (p_offset a) (n_offset a)
                else CreateInOutPerKernel ext ci co (pixel_dists v)
                  (kernel_size v) (dilations v) (region_type a) (p_offset a) (n_offset a)))
          \<and> filter is_kernel_map_builder
               (calls (INITIALIZE_OUT_COORDS_AND_KERNEL_MAP D ext t v a md))
            = [if t then InOutPerKernelTranspose else InOutPerKernel])"
  using assms
  by (cases rule: macro_cases [where md = md and v = v and t = t]) (auto simp: macro_eqs)

lemma global_stores:
  assumes "ret (INITIALIZE_GLOBAL_OUT_COORDS_AND_KERNEL_MAP D ext v md) = None"
  shows "\<exists>ci co.
     coord2inds md (pixel_dist_hash v) = Some ci
     \<and> coord2inds (meta (INITIALIZE_GLOBAL_OUT_COORDS_AND_KERNEL_MAP D ext v md))
          (pixel_dist_hash v) = Some ci
     \<and> coord2inds (meta (INITIALIZE_GLOBAL_OUT_COORDS_AND_KERNEL_MAP D ext v md))
          (out_pixel_dist_hash v) = Some co
     \<and> (case coord2inds md (out_pixel_dist_hash v) of
          Some c \<Rightarrow> co = c
        | None \<Rightarrow> co = CreateOutputOriginCoordIndexMap ext ci 0)
     \<and> (in_maps md (key v) = None \<longrightarrow>
          in_maps (meta (INITIALIZE_GLOBAL_OUT_COORDS_AND_KERNEL_MAP D ext v md)) (key v)
            = Some (fst (CreateGlobalReductionInOutMap ext ci co))
          \<and> out_maps (meta (INITIALIZE_GLOBAL_OUT_COORDS_AND_KERNEL_MAP D ext v md)) (key v)
            = Some (snd (CreateGlobalReductionInOutMap ext ci co))
          \<and> filter is_kernel_map_builder
               (calls (INITIALIZE_GLOBAL_OUT_COORDS_AND_KERNEL_MAP D ext v md))
            = [GlobalReductionInOutMap])"
  using assms
  by (cases rule: global_cases [where md = md and v = v]) (auto simp: global_eqs)

lemma forward_cache:
  "let o1 = INITIALIZE_OUT_COORDS_AND_KERNEL_MAP D ext t v a md;
       md2 = run D ext es (meta o1);
       o2 = INITIALIZE_OUT_COORDS_AND_KERNEL_MAP D ext t v a md2
   in (Clear \<notin> set es \<longrightarrow>
         length (filter is_kernel_map_builder (calls o1 @ calls o2)) \<le> 1
         \<and> (ret o1 = None \<longrightarrow>
              o2 = \<lparr>ret = None, meta = md2, cerr = [], calls = []\<rparr>
              \<and> in_maps md2 (key v) = in_maps (meta o1) (key v)
              \<and> out_maps md2 (key v) = out_maps (meta o1) (key v)))
      \<and> INITIALIZE_OUT_COORDS_AND_KERNEL_MAP D ext t v a (meta o1) = o1\<lparr>calls := []\<rparr>
      \<and> (ret o1 = None \<longrightarrow>
           (\<exists>ci co.
              coord2inds md (pixel_dist_hash v) = Some ci
              \<and> coord2inds (meta o1) (pixel_dist_hash v) = Some ci
              \<and> coord2inds (meta o1) (out_pixel_dist_hash v) = Some co
              \<and> (case coord2inds md (out_pixel_dist_hash v) of
                   Some c \<Rightarrow> co = c
                 | None \<Rightarrow>
                     \<not> t \<and> co = CreateOutputCoordIndexMap ext ci (pixel_dists v) (strides v))
              \<and> (in_maps md (key v) = None \<longrightarrow>
                   in_maps (meta o1) (key v)
                     = Some (fst (if t
                         then CreateInOutPerKernelTranspose ext ci co (out_pixel_dists v)
                           (kernel_size v) (dilations v) (region_type a) (p_offset a)
                           (n_offset a)
                         else CreateInOutPerKernel ext ci co (pixel_dists v)
                           (kernel_size v) (dilations v) (region_type a) (p_offset a)
                           (n_offset a)))
                   \<and> out_maps (meta o1) (key v)
                     = Some (snd (if t
                         then CreateInOutPerKernelTranspose ext ci co (out_pixel_dists v)
                           (kernel_size v) (dilations v) (region_type a) (p_offset a)
                           (n_offset a)
                         else CreateInOutPerKernel ext ci co (pixel_dists v)
                           (kernel_size v) (dilations v) (region_type a) (p_offset a)
                           (n_offset a)))
                   \<and> filter is_kernel_map_builder (calls o1)
                     = [if t then InOutPerKernelTranspose else InOutPerKernel])))
      \<and> (in_maps md (key v) \<noteq> None \<longrightarrow>
           in_maps (meta o1) = in_maps md \<and> out_maps (meta o1) = out_maps md
           \<and> filter is_kernel_map_builder (calls o1) = [])
      \<and> (\<forall>r. ret o1 = Some r \<longrightarrow> meta o1 = md \<and> calls o1 = [])"
proof -
  let ?o1 = "INITIALIZE_OUT_COORDS_AND_KERNEL_MAP D ext t v a md"
  let ?md2 = "run D ext es (meta ?o1)"
  let ?o2 = "INITIALIZE_OUT_COORDS_AND_KERNEL_MAP D ext t v a ?md2"
  have again: "?o2 = \<lparr>ret = None, meta = ?md2, cerr = [], calls = []\<rparr>
      \<and> in_maps ?md2 (key v) = in_maps (meta ?o1) (key v)
      \<and> out_maps ?md2 (key v) = out_maps (meta ?o1) (key v)"
    if es: "Clear \<notin> set es" and r: "ret ?o1 = None"
  proof -
    note d = macro_done [OF r]
    note k1 = run_keeps [OF es, of "meta ?o1" "pixel_dist_hash v" D ext "key v"]
    note k2 = run_keeps [OF es, of "meta ?o1" "out_pixel_dist_hash v" D ext "key v"]
    from d k1 have p: "coord2inds ?md2 (pixel_dist_hash v) \<noteq> None" by blast
    from d k2 have q: "coord2inds ?md2 (out_pixel_dist_hash v) \<noteq> None" by blast
    from d k1 have i: "in_maps ?md2 (key v) = in_maps (meta ?o1) (key v)"
      and u: "out_maps ?md2 (key v) = out_maps (meta ?o1) (key v)" by blast+
    from d i have j: "in_maps ?md2 (key v) \<noteq> None" by simp
    from macro_ready [OF p q j] i u show ?thesis by simp
  qed
  have once: "length (filter is_kernel_map_builder (calls ?o1 @ calls ?o2)) \<le> 1"
    if es: "Clear \<notin> set es"
  proof (cases "ret ?o1")
    case None
    from again [OF es None] have "calls ?o2 = []" by simp
    then show ?thesis using macro_builds_once [of D ext t v a md] by simp
  next
    case (Some r)
    from macro_fail [OF Some] have "calls ?o1 = []" by simp
    then show ?thesis using macro_builds_once [of D ext t v a ?md2] by simp
  qed
  have c1: "Clear \<notin> set es \<longrightarrow>
      length (filter is_kernel_map_builder (calls ?o1 @ calls ?o2)) \<le> 1
      \<and> (ret ?o1 = None \<longrightarrow>
           ?o2 = \<lparr>ret = None, meta = ?md2, cerr = [], calls = []\<rparr>
           \<and> in_maps ?md2 (key v) = in_maps (meta ?o1) (key v)
           \<and> out_maps ?md2 (key v) = out_maps (meta ?o1) (key v))"
    using once again by blast
  have c2: "INITIALIZE_OUT_COORDS_AND_KERNEL_MAP D ext t v a (meta ?o1) = ?o1\<lparr>calls := []\<rparr>"
    by (rule macro_idem)
  note c3 = macro_stores [of D ext t v a md, THEN impI [of "ret ?o1 = None"]]
  have c4: "in_maps md (key v) \<noteq> None \<longrightarrow>
      in_maps (meta ?o1) = in_maps md \<and> out_maps (meta ?o1) = out_maps md
      \<and> filter is_kernel_map_builder (calls ?o1) = []"
    by (intro impI, rule macro_hit)
  have c5: "\<forall>r. ret ?o1 = Some r \<longrightarrow> meta ?o1 = md \<and> calls ?o1 = []"
    using macro_fail [of D ext t v a md] by blast
  show ?thesis
    unfolding Let_def by (intro conjI c1 c2 c3 c4 c5)
qed

lemma global_cache:
  "let o1 = INITIALIZE_GLOBAL_OUT_COORDS_AND_KERNEL_MAP D ext v md;
       md2 = run D ext es (meta o1);
       o2 = INITIALIZE_GLOBAL_OUT_COORDS_AND_KERNEL_MAP D ext v md2
   in (Clear \<notin> set es \<longrightarrow>
         length (filter is_kernel_map_builder (calls o1 @ calls o2)) \<le> 1
         \<and> (ret o1 = None \<longrightarrow>
              o2 = \<lparr>ret = None, meta = md2, cerr = [], calls = []\<rparr>
              \<and> in_maps md2 (key v) = in_maps (meta o1) (key v)
              \<and> out_maps md2 (key v) = out_maps (meta o1) (key v)))
      \<and> INITIALIZE_GLOBAL_OUT_COORDS_AND_KERNEL_MAP D ext v (meta o1) = o1\<lparr>calls := []\<rparr>
      \<and> (ret o1 = None \<longrightarrow>
           (\<exists>ci co.
              coord2inds md (pixel_dist_hash v) = Some ci
              \<and> coord2inds (meta o1) (pixel_dist_hash v) = Some ci
              \<and> coord2inds (meta o1) (out_pixel_dist_hash v) = Some co
              \<and> (case coord2inds md (out_pixel_dist_hash v) of
                   Some c \<Rightarrow> co = c
                 | None \<Rightarrow> co = CreateOutputOriginCoordIndexMap ext ci 0)
              \<and> (in_maps md (key v) = None \<longrightarrow>
                   in_maps (meta o1) (key v)
                     = Some (fst (CreateGlobalReductionInOutMap ext ci co))
                   \<and> out_maps (meta o1) (key v)
                     = Some (snd (CreateGlobalReductionInOutMap ext ci co))
                   \<and> filter is_kernel_map_builder (calls o1)
                     = [GlobalReductionInOutMap])))
      \<and> (in_maps md (key v) \<noteq> None \<longrightarrow>
           in_maps (meta o1) = in_maps md \<and> out_maps (meta o1) = out_maps md
           \<and> filter is_kernel_map_builder (calls o1) = [])
      \<and> (\<forall>r. ret o1 = Some r \<longrightarrow> meta o1 = md \<and> calls o1 = [])"
proof -
  let ?o1 = "INITIALIZE_GLOBAL_OUT_COORDS_AND_KERNEL_MAP D ext v md"
  let ?md2 = "run D ext es (meta ?o1)"
  let ?o2 = "INITIALIZE_GLOBAL_OUT_COORDS_AND_KERNEL_MAP D ext v ?md2"
  have again: "?o2 = \<lparr>ret = None, meta = ?md2, cerr = [], calls = []\<rparr>
      \<and> in_maps ?md2 (key v) = in_maps (meta ?o1) (key v)
      \<and> out_maps ?md2 (key v) = out_maps (meta ?o1) (key v)"
    if es: "Clear \<notin> set es" and r: "ret ?o1 = None"
  proof -
    note d = global_done [OF r]
    note k1 = run_keeps [OF es, of "meta ?o1" "pixel_dist_hash v" D ext "key v"]
    note k2 = run_keeps [OF es, of "meta ?o1" "out_pixel_dist_hash v" D ext "key v"]
    from d k1 have p: "coord2inds ?md2 (pixel_dist_hash v) \<noteq> None" by blast
    from d k2 have q: "coord2inds ?md2 (out_pixel_dist_hash v) \<noteq> None" by blast
    from d k1 have i: "in_maps ?md2 (key v) = in_maps (meta ?o1) (key v)"
      and u: "out_maps ?md2 (key v) = out_maps (meta ?o1) (key v)" by blast+
    from d i have j: "in_maps ?md2 (key v) \<noteq> None" by simp
    from global_ready [OF p q j] i u show ?thesis by simp
  qed
  have once: "length (filter is_kernel_map_builder (calls ?o1 @ calls ?o2)) \<le> 1"
    if es: "Clear \<notin> set es"
  proof (cases "ret ?o1")
    case None
    from again [OF es None] have "calls ?o2 = []" by simp
    then show ?thesis using global_builds_once [of D ext v md] by simp
  next
    case (Some r)
    from global_fail [OF Some] have "calls ?o1 = []" by simp
    then show ?thesis using global_builds_once [of D ext v ?md2] by simp
  qed
  have c1: "Clear \<notin> set es \<longrightarrow>
      length (filter is_kernel_map_builder (calls ?o1 @ calls ?o2)) \<le> 1
      \<and> (ret ?o1 = None \<longrightarrow>
           ?o2 = \<lparr>ret = None, meta = ?md2, cerr = [], calls = []\<rparr>
           \<and> in_maps ?md2 (key v) = in_maps (meta ?o1) (key v)
           \<and> out_maps ?md2 (key v) = out_maps (meta ?o1) (key v))"
    using once again by blast
  have c2: "INITIALIZE_GLOBAL_OUT_COORDS_AND_KERNEL_MAP D ext v (meta ?o1) = ?o1\<lparr>calls := []\<rparr>"
    by (rule global_idem)
  note c3 = global_stores [of D ext v md, THEN impI [of "ret ?o1 = None"]]
  have c4: "in_maps md (key v) \<noteq> None \<longrightarrow>
      in_maps (meta ?o1) = in_maps md \<and> out_maps (meta ?o1) = out_maps md
      \<and> filter is_kernel_map_builder (calls ?o1) = []"
    by (intro impI, rule global_hit)
  have c5: "\<forall>r. ret ?o1 = Some r \<longrightarrow> meta ?o1 = md \<and> calls ?o1 = []"
    using global_fail [of D ext v md] by blast
  show ?thesis
    unfolding Let_def by (intro conjI c1 c2 c3 c4 c5)
qed


text \<open>
  C1. Take any scope and any variables of an operator and expand the map macro; let
  any calls follow on the scope, none of them \<^verbatim>\<open>clear()\<close>; then expand the macro again
  with the same variables. Over the two expansions a kernel-map builder is called at
  most once. When the first falls through, the second calls no builder, falls through
  and changes nothing, and it finds under the key the very \<^verbatim>\<open>in_maps\<close> and \<^verbatim>\<open>out_maps\<close>
  entries the first left. When the key was missing, the first called exactly its
  builder, on the coordinate maps held under the input hash and the output hash, and put
  the two components of the result into \<^verbatim>\<open>in_maps\<close> and \<^verbatim>\<open>out_maps\<close> before control left
  the macro; when the key was there, no builder was called and both maps are unchanged.
  A first expansion that returns leaves the scope as it was. The same holds for the
  global macro.
\<close>

theorem cache_stability:
  "(let o1 = INITIALIZE_OUT_COORDS_AND_KERNEL_MAP D ext t v a md;
       md2 = run D ext es (meta o1);
       o2 = INITIALIZE_OUT_COORDS_AND_KERNEL_MAP D ext t v a md2
   in (Clear \<notin> set es \<longrightarrow>
         length (filter is_kernel_map_builder (calls o1 @ calls o2)) \<le> 1
         \<and> (ret o1 = None \<longrightarrow>
              o2 = \<lparr>ret = None, meta = md2, cerr = [], calls = []\<rparr>
              \<and> in_maps md2 (key v) = in_maps (meta o1) (key v)
              \<and> out_maps md2 (key v) = out_maps (meta o1) (key v)))
      \<and> INITIALIZE_OUT_COORDS_AND_KERNEL_MAP D ext t v a (meta o1) = o1\<lparr>calls := []\<rparr>
      \<and> (ret o1 = None \<longrightarrow>
           (\<exists>ci co.
              coord2inds md (pixel_dist_hash v) = Some ci
              \<and> coord2inds (meta o1) (pixel_dist_hash v) = Some ci
              \<and> coord2inds (meta o1) (out_pixel_dist_hash v) = Some co
              \<and> (case coord2inds md (out_pixel_dist_hash v) of
                   Some c \<Rightarrow> co = c
                 | None \<Rightarrow>
                     \<not> t \<and> co = CreateOutputCoordIndexMap ext ci (pixel_dists v) (strides v))
              \<and> (in_maps md (key v) = None \<longrightarrow>
                   in_maps (meta o1) (key v)
                     = Some (fst (if t
                         then CreateInOutPerKernelTranspose ext ci co (out_pixel_dists v)
                           (kernel_size v) (dilations v) (region_type a) (p_offset a)
                           (n_offset a)
                         else CreateInOutPerKernel ext ci co (pixel_dists v)
                           (kernel_size v) (dilations v) (region_type a) (p_offset a)
                           (n_offset a)))
                   \<and> out_maps (meta o1) (key v)
                     = Some (snd (if t
                         then CreateInOutPerKernelTranspose ext ci co (out_pixel_dists v)
                           (kernel_size v) (dilations v) (region_type a) (p_offset a)
                           (n_offset a)
                         else CreateInOutPerKernel ext ci co (pixel_dists v)
                           (kernel_size v) (dilations v) (region_type a) (p_offset a)
                           (n_offset a)))
                   \<and> filter is_kernel_map_builder (calls o1)
                     = [if t then InOutPerKernelTranspose else InOutPerKernel])))
      \<and> (in_maps md (key v) \<noteq> None \<longrightarrow>
           in_maps (meta o1) = in_maps md \<and> out_maps (meta o1) = out_maps md
           \<and> filter is_kernel_map_builder (calls o1) = [])
      \<and> (\<forall>r. ret o1 = Some r \<longrightarrow> meta o1 = md \<and> calls o1 = []))
   \<and> (let g1 = INITIALIZE_GLOBAL_OUT_COORDS_AND_KERNEL_MAP D ext gv md;
       md3 = run D ext es (meta g1);
       g2 = INITIALIZE_GLOBAL_OUT_COORDS_AND_KERNEL_MAP D ext gv md3
   in (Clear \<notin> set es \<longrightarrow>
         length (filter is_kernel_map_builder (calls g1 @ calls g2)) \<le> 1
         \<and> (ret g1 = None \<longrightarrow>
              g2 = \<lparr>ret = None, meta = md3, cerr = [], calls = []\<rparr>
              \<and> in_maps md3 (key gv) = in_maps (meta g1) (key gv)
              \<and> out_maps md3 (key gv) = out_maps (meta g1) (key gv)))
      \<and> INITIALIZE_GLOBAL_OUT_COORDS_AND_KERNEL_MAP D ext gv (meta g1) = g1\<lparr>calls := []\<rparr>
      \<and> (ret g1 = None \<longrightarrow>
           (\<exists>ci co.
              coord2inds md (pixel_dist_hash gv) = Some ci
              \<and> coord2inds (meta g1) (pixel_dist_hash gv) = Some ci
              \<and> coord2inds (meta g1) (out_pixel_dist_hash gv) = Some co
              \<and> (case coord2inds md (out_pixel_dist_hash gv) of
                   Some c \<Rightarrow> co = c
                 | None \<Rightarrow> co = CreateOutputOriginCoordIndexMap ext ci 0)
              \<and> (in_maps md (key gv) = None \<longrightarrow>
                   in_maps (meta g1) (key gv)
                     = Some (fst (CreateGlobalReductionInOutMap ext ci co))
                   \<and> out_maps (meta g1) (key gv)
                     = Some (snd (CreateGlobalReductionInOutMap ext ci co))
                   \<and> filter is_kernel_map_builder (calls g1)
                     = [GlobalReductionInOutMap])))
      \<and> (in_maps md (key gv) \<noteq> None \<longrightarrow>
           in_maps (meta g1) = in_maps md \<and> out_maps (meta g1) = out_maps md
           \<and> filter is_kernel_map_builder (calls g1) = [])
      \<and> (\<forall>r. ret g1 = Some r \<longrightarrow> meta g1 = md \<and> calls g1 = []))"
  by (rule conjI [OF forward_cache global_cache])

text \<open>
  C1 on \<open>sample_scope\<close>: the strided and the global operator each find their key
  missing, build once and store the builder's result; after a transposed pass, a
  backward check and a global reduction on the scope, asked again, they call no builder
  and find the same entries.
\<close>

theorem cache_stability_witness:
  "Clear \<notin> set [Forward True sample_a, Backward False sample_a, Global sample_a]
   \<and> (let o1 = INITIALIZE_OUT_COORDS_AND_KERNEL_MAP 3 sample_externs False sample_fw sample_a
                 sample_scope;
          md2 = run 3 sample_externs
                  [Forward True sample_a, Backward False sample_a, Global sample_a] (meta o1);
          o2 = INITIALIZE_OUT_COORDS_AND_KERNEL_MAP 3 sample_externs False sample_fw sample_a md2
      in ret o1 = None \<and> in_maps sample_scope (key sample_fw) = None
         \<and> in_maps (meta o1) (key sample_fw) = Some [[0, 1]]
         \<and> out_maps (meta o1) (key sample_fw) = Some [[0, 0]]
         \<and> filter is_kernel_map_builder (calls o1) = [InOutPerKernel]
         \<and> calls o2 = [] \<and> ret o2 = None
         \<and> in_maps (meta o2) (key sample_fw) = Some [[0, 1]]
         \<and> out_maps (meta o2) (key sample_fw) = Some [[0, 0]])
   \<and> (let g1 = INITIALIZE_GLOBAL_OUT_COORDS_AND_KERNEL_MAP 3 sample_externs sample_gl
                 sample_scope;
          md3 = run 3 sample_externs
                  [Forward True sample_a, Backward False sample_a, Global sample_a] (meta g1);
          g2 = INITIALIZE_GLOBAL_OUT_COORDS_AND_KERNEL_MAP 3 sample_externs sample_gl md3
      in ret g1 = None \<and> in_maps sample_scope (key sample_gl) = None
         \<and> in_maps (meta g1) (key sample_gl) = Some [[0, 1, 2]]
         \<and> out_maps (meta g1) (key sample_gl) = Some [[0, 0, 0]]
         \<and> filter is_kernel_map_builder (calls g1) = [GlobalReductionInOutMap]
         \<and> calls g2 = [] \<and> ret g2 = None
         \<and> in_maps (meta g2) (key sample_gl) = Some [[0, 1, 2]]
         \<and> out_maps (meta g2) (key sample_gl) = Some [[0, 0, 0]])"
proof -
  let ?es = "[Forward True sample_a, Backward False sample_a, Global sample_a]"
  let ?o1 = "INITIALIZE_OUT_COORDS_AND_KERNEL_MAP 3 sample_externs False sample_fw sample_a
      sample_scope"
  let ?md2 = "run 3 sample_externs ?es (meta ?o1)"
  let ?o2 = "INITIALIZE_OUT_COORDS_AND_KERNEL_MAP 3 sample_externs False sample_fw sample_a ?md2"
  let ?g1 = "INITIALIZE_GLOBAL_OUT_COORDS_AND_KERNEL_MAP 3 sample_externs sample_gl sample_scope"
  let ?md3 = "run 3 sample_externs ?es (meta ?g1)"
  let ?g2 = "INITIALIZE_GLOBAL_OUT_COORDS_AND_KERNEL_MAP 3 sample_externs sample_gl ?md3"
  note c = cache_stability [where D = 3 and ext = sample_externs and t = False
      and v = sample_fw and a = sample_a and md = sample_scope and gv = sample_gl
      and es = ?es, unfolded Let_def]
  have es: "Clear \<notin> set ?es" by simp
  note fr = sample_fw_ret
  note fm = sample_fw_state(3)
  note gr = sample_gl_ret
  note gm = sample_gl_state(3)
  from c [THEN conjunct1] es fr have f2: "?o2 = \<lparr>ret = None, meta = ?md2, cerr = [], calls = []\<rparr>"
    and fi: "in_maps ?md2 (key sample_fw) = in_maps (meta ?o1) (key sample_fw)"
    and fo: "out_maps ?md2 (key sample_fw) = out_maps (meta ?o1) (key sample_fw)"
    by blast+
  from c [THEN conjunct1] fr fm have fs: "in_maps (meta ?o1) (key sample_fw) = Some [[0, 1]]
      \<and> out_maps (meta ?o1) (key sample_fw) = Some [[0, 0]]
      \<and> filter is_kernel_map_builder (calls ?o1) = [InOutPerKernel]"
    by (auto simp: sample_externs_def)
  from c [THEN conjunct2] es gr have g2: "?g2 = \<lparr>ret = None, meta = ?md3, cerr = [], calls = []\<rparr>"
    and gi: "in_maps ?md3 (key sample_gl) = in_maps (meta ?g1) (key sample_gl)"
    and go: "out_maps ?md3 (key sample_gl) = out_maps (meta ?g1) (key sample_gl)"
    by blast+
  from c [THEN conjunct2] gr gm have gs: "in_maps (meta ?g1) (key sample_gl) = Some [[0, 1, 2]]
      \<and> out_maps (meta ?g1) (key sample_gl) = Some [[0, 0, 0]]
      \<and> filter is_kernel_map_builder (calls ?g1) = [GlobalReductionInOutMap]"
    by (auto simp: sample_externs_def)
  have f: "ret ?o1 = None \<and> in_maps sample_scope (key sample_fw) = None
      \<and> in_maps (meta ?o1) (key sample_fw) = Some [[0, 1]]
      \<and> out_maps (meta ?o1) (key sample_fw) = Some [[0, 0]]
      \<and> filter is_kernel_map_builder (calls ?o1) = [InOutPerKernel]
      \<and> calls ?o2 = [] \<and> ret ?o2 = None
      \<and> in_maps (meta ?o2) (key sample_fw) = Some [[0, 1]]
      \<and> out_maps (meta ?o2) (key sample_fw) = Some [[0, 0]]"
    using fr fm fs fi fo f2 by simp
  have g: "ret ?g1 = None \<and> in_maps sample_scope (key sample_gl) = None
      \<and> in_maps (meta ?g1) (key sample_gl) = Some [[0, 1, 2]]
      \<and> out_maps (meta ?g1) (key sample_gl) = Some [[0, 0, 0]]
      \<and> filter is_kernel_map_builder (calls ?g1) = [GlobalReductionInOutMap]
      \<and> calls ?g2 = [] \<and> ret ?g2 = None
      \<and> in_maps (meta ?g2) (key sample_gl) = Some [[0, 1, 2]]
      \<and> out_maps (meta ?g2) (key sample_gl) = Some [[0, 0, 0]]"
    using gr gm gs gi go g2 by simp
  show ?thesis
    unfolding Let_def by (intro conjI es f g)
qed

section \<open>Equal keys\<close>

lemma key_fields:
  assumes "key (INITIALIZE_DEFAULT_VARS_AND_HASHES D ext a1 t1)
      = key (INITIALIZE_DEFAULT_VARS_AND_HASHES D ext a2 t2)"
  shows "pixel_dist_hash (INITIALIZE_DEFAULT_VARS_AND_HASHES D ext a1 t1)
      = pixel_dist_hash (INITIALIZE_DEFAULT_VARS_AND_HASHES D ext a2 t2)"
    and "t1 = t2"
proof -
  from assms have k: "hash_vec (ToArray D (p_pixel_dist a1)) = hash_vec (ToArray D (p_pixel_dist a2))
      \<and> (of_bool t1 :: 64 word) = of_bool t2"
    by (simp add: INITIALIZE_DEFAULT_VARS_AND_HASHES_def Let_def)
  then show "pixel_dist_hash (INITIALIZE_DEFAULT_VARS_AND_HASHES D ext a1 t1)
      = pixel_dist_hash (INITIALIZE_DEFAULT_VARS_AND_HASHES D ext a2 t2)"
    by (simp add: INITIALIZE_DEFAULT_VARS_AND_HASHES_def Let_def)
  from k show "t1 = t2"
    by (cases t1; cases t2) simp_all
qed

lemma macro_forward_succeeds:
  "coord2inds md (pixel_dist_hash v) \<noteq> None \<Longrightarrow>
   ret (INITIALIZE_OUT_COORDS_AND_KERNEL_MAP D ext False v a md) = None"
  by (cases rule: macro_cases [where md = md and v = v and t = False])
    (simp_all add: macro_eqs)

lemma macro_ret:
  "ret (INITIALIZE_OUT_COORDS_AND_KERNEL_MAP D ext t v a md) =
     (if coord2inds md (pixel_dist_hash v) = None
         \<or> t \<and> coord2inds md (out_pixel_dist_hash v) = None
      then Some (- 1) else None)"
  by (cases rule: macro_cases [where md = md and v = v and t = t]) (simp_all add: macro_eqs)

lemma collision_hashes:
  "hash_vec res_a = 15655081956654708470"
  "hash_vec res_b = 15655081956654708470"
  "hash_vec [1, 1216, 378451 :: 32 word] = 15656320006747259037"
  "hash_vec [2, 652, 1 :: 32 word] = 15656704835817569456"
  "hash_vec [2, 1, 1 :: 32 word] = 15656277125794195379"
  by (simp_all add: res_a_def res_b_def hash_vec_def uint64_of_def)

lemma collision_out_dists:
  "ComputeOutPixelDist_spec res_a [2, 1, 1] True = [1, 1216, 378451]"
  "ComputeOutPixelDist_spec res_b [2, 1, 1] True = [2, 652, 1]"
  by (simp_all add: res_a_def res_b_def ComputeOutPixelDist_spec_def signed_divide_int_def)

lemma colliding_vars:
  "pixel_dist_hash (INITIALIZE_DEFAULT_VARS_AND_HASHES 3 sample_externs coll_a t)
     = 15655081956654708470"
  "pixel_dist_hash (INITIALIZE_DEFAULT_VARS_AND_HASHES 3 sample_externs coll_b t)
     = 15655081956654708470"
  "out_pixel_dist_hash (INITIALIZE_DEFAULT_VARS_AND_HASHES 3 sample_externs coll_a True)
     = 15656320006747259037"
  "out_pixel_dist_hash (INITIALIZE_DEFAULT_VARS_AND_HASHES 3 sample_externs coll_b True)
     = 15656704835817569456"
  "key (INITIALIZE_DEFAULT_VARS_AND_HASHES 3 sample_externs coll_a t)
     = [15655081956654708470, 15656277125794195379, 15655324948724353878,
        15657235899933806144, of_bool t]"
  "key (INITIALIZE_DEFAULT_VARS_AND_HASHES 3 sample_externs coll_b t)
     = [15655081956654708470, 15656277125794195379, 15655324948724353878,
        15657235899933806144, of_bool t]"
  by (simp_all add: INITIALIZE_DEFAULT_VARS_AND_HASHES_def Let_def coll_a_def coll_b_def
      sample_args_def sample_externs_def ToArray_def res_a_def res_b_def hash_vec_def
      uint64_of_def ComputeOutPixelDist_spec_def signed_divide_int_def)

lemma colliding_scope_eq:
  "coord2inds colliding_scope =
     [15655081956654708470 \<mapsto> CoordIndexMap_new 3, 15656320006747259037 \<mapsto> CoordIndexMap_new 3]"
  "in_maps colliding_scope = Map.empty"
  by (simp_all add: colliding_scope_def register_coords_def Metadata_new_def collision_hashes)

text \<open>
  C2, as stated, fails. The resolutions \<open>(2, 1216, 378451)\<close> and \<open>(4, 652, 1)\<close> have the
  same hash, so two transposed operators with stride \<open>(2, 1, 1)\<close> at these resolutions
  have the same key. On a scope with coordinate maps at the first resolution and at its
  output resolution \<open>(1, 1216, 378451)\<close>, the first operator builds and stores the map;
  the second does not reuse it: its output resolution is \<open>(2, 652, 1)\<close>, no coordinate
  map is registered under that hash, and the macro returns \<open>- 1\<close> at line 167.
\<close>

theorem equal_keys_second_call_fails:
  "res_a \<noteq> res_b
   \<and> key (INITIALIZE_DEFAULT_VARS_AND_HASHES 3 sample_externs coll_a True)
     = key (INITIALIZE_DEFAULT_VARS_AND_HASHES 3 sample_externs coll_b True)
   \<and> ret (forward_request 3 sample_externs True coll_a colliding_scope) = None
   \<and> in_maps (meta (forward_request 3 sample_externs True coll_a colliding_scope))
        (key (INITIALIZE_DEFAULT_VARS_AND_HASHES 3 sample_externs coll_a True)) \<noteq> None
   \<and> ret (forward_request 3 sample_externs True coll_b
        (meta (forward_request 3 sample_externs True coll_a colliding_scope))) = Some (- 1)"
proof -
  let ?va = "INITIALIZE_DEFAULT_VARS_AND_HASHES 3 sample_externs coll_a True"
  let ?vb = "INITIALIZE_DEFAULT_VARS_AND_HASHES 3 sample_externs coll_b True"
  let ?o1 = "INITIALIZE_OUT_COORDS_AND_KERNEL_MAP 3 sample_externs True ?va coll_a colliding_scope"
  have ne: "res_a \<noteq> res_b"
    by (simp add: res_a_def res_b_def)
  have k: "key ?va = key ?vb"
    by (simp add: colliding_vars)
  have r1: "ret ?o1 = None"
    by (simp add: macro_ret colliding_vars colliding_scope_eq)
  have c1: "coord2inds (meta ?o1) = coord2inds colliding_scope"
    by (rule macro_transposed_coords)
  have i1: "in_maps (meta ?o1) (key ?va) \<noteq> None"
    using macro_done [OF r1] by simp
  have r2: "ret (INITIALIZE_OUT_COORDS_AND_KERNEL_MAP 3 sample_externs True ?vb coll_b (meta ?o1))
      = Some (- 1)"
    by (simp add: macro_ret c1 colliding_vars colliding_scope_eq)
  from ne k r1 i1 r2 show ?thesis
    by (simp add: forward_request_def)
qed

text \<open>
  C2, amended. Let two operators on one scope have equal keys, let the first have
  completed its map macro, and let any calls follow on the scope before the second,
  none of them \<^verbatim>\<open>clear()\<close>. Then the two have the same transpose flag, and the second
  calls no kernel-map builder and leaves \<^verbatim>\<open>in_maps\<close> and \<^verbatim>\<open>out_maps\<close> as they are, so
  the entries under its key are the ones the first operator left (the builder's result,
  when the first found the key missing), whatever the tuples behind the hashes. It
  completes and reads these entries unless it is transposed and no coordinate map is
  registered under the hash of its own output resolution; then it returns \<open>- 1\<close> and
  the scope is unchanged. The strided second operator always completes.
\<close>

theorem equal_keys_reuse_map:
  assumes "key (INITIALIZE_DEFAULT_VARS_AND_HASHES D ext a1 t1)
      = key (INITIALIZE_DEFAULT_VARS_AND_HASHES D ext a2 t2)"
    and "ret (forward_request D ext t1 a1 md) = None"
    and "Clear \<notin> set es"
  shows "let v1 = INITIALIZE_DEFAULT_VARS_AND_HASHES D ext a1 t1;
             v2 = INITIALIZE_DEFAULT_VARS_AND_HASHES D ext a2 t2;
             md1 = meta (forward_request D ext t1 a1 md);
             md2 = run D ext es md1;
             o2 = forward_request D ext t2 a2 md2
         in t2 = t1
            \<and> filter is_kernel_map_builder (calls o2) = []
            \<and> in_maps (meta o2) = in_maps md2 \<and> out_maps (meta o2) = out_maps md2
            \<and> in_maps (meta o2) (key v2) = in_maps md1 (key v1)
            \<and> out_maps (meta o2) (key v2) = out_maps md1 (key v1)
            \<and> in_maps md1 (key v1) \<noteq> None
            \<and> (in_maps md (key v1) = None \<longrightarrow>
                 (\<exists>ci co.
                    coord2inds md1 (pixel_dist_hash v1) = Some ci
                    \<and> coord2inds md1 (out_pixel_dist_hash v1) = Some co
                    \<and> in_maps md1 (key v1)
                      = Some (fst (if t1
                          then CreateInOutPerKernelTranspose ext ci co (out_pixel_dists v1)
                            (kernel_size v1) (dilations v1) (region_type a1) (p_offset a1)
                            (n_offset a1)
                          else CreateInOutPerKernel ext ci co (pixel_dists v1)
                            (kernel_size v1) (dilations v1) (region_type a1) (p_offset a1)
                            (n_offset a1)))
                    \<and> out_maps md1 (key v1)
                      = Some (snd (if t1
                          then CreateInOutPerKernelTranspose ext ci co (out_pixel_dists v1)
                            (kernel_size v1) (dilations v1) (region_type a1) (p_offset a1)
                            (n_offset a1)
                          else CreateInOutPerKernel ext ci co (pixel_dists v1)
                            (kernel_size v1) (dilations v1) (region_type a1) (p_offset a1)
                            (n_offset a1)))))
            \<and> ret o2 = (if t2 \<and> coord2inds md2 (out_pixel_dist_hash v2) = None
                         then Some (- 1) else None)
            \<and> (ret o2 \<noteq> None \<longrightarrow> meta o2 = md2)"
proof -
  let ?v1 = "INITIALIZE_DEFAULT_VARS_AND_HASHES D ext a1 t1"
  let ?v2 = "INITIALIZE_DEFAULT_VARS_AND_HASHES D ext a2 t2"
  let ?o1 = "INITIALIZE_OUT_COORDS_AND_KERNEL_MAP D ext t1 ?v1 a1 md"
  let ?md2 = "run D ext es (meta ?o1)"
  let ?o2 = "INITIALIZE_OUT_COORDS_AND_KERNEL_MAP D ext t2 ?v2 a2 ?md2"
  from assms(2) have r1: "ret ?o1 = None"
    by (simp add: forward_request_def)
  note d = macro_done [OF r1]
  note kf = key_fields [OF assms(1)]
  note keep = run_keeps [OF assms(3), of "meta ?o1" "pixel_dist_hash ?v1" D ext "key ?v1"]
  have t: "t2 = t1" using kf(2) by simp
  from d keep have pix1: "coord2inds ?md2 (pixel_dist_hash ?v1) \<noteq> None"
    and in1: "in_maps ?md2 (key ?v1) = in_maps (meta ?o1) (key ?v1)"
    and out1: "out_maps ?md2 (key ?v1) = out_maps (meta ?o1) (key ?v1)"
    by blast+
  have pix: "coord2inds ?md2 (pixel_dist_hash ?v2) \<noteq> None"
    using pix1 kf(1) by simp
  have present: "in_maps (meta ?o1) (key ?v1) \<noteq> None"
    using d by simp
  have hit: "in_maps ?md2 (key ?v2) \<noteq> None"
    using present in1 assms(1) by simp
  note h = macro_hit [OF hit, of D ext t2 a2]
  have same_in: "in_maps (meta ?o2) (key ?v2) = in_maps (meta ?o1) (key ?v1)"
    using h in1 assms(1) by simp
  have same_out: "out_maps (meta ?o2) (key ?v2) = out_maps (meta ?o1) (key ?v1)"
    using h out1 assms(1) by simp
  have stored: "in_maps md (key ?v1) = None \<longrightarrow>
      (\<exists>ci co.
         coord2inds (meta ?o1) (pixel_dist_hash ?v1) = Some ci
         \<and> coord2inds (meta ?o1) (out_pixel_dist_hash ?v1) = Some co
         \<and> in_maps (meta ?o1) (key ?v1)
           = Some (fst (if t1
               then CreateInOutPerKernelTranspose ext ci co (out_pixel_dists ?v1)
                 (kernel_size ?v1) (dilations ?v1) (region_type a1) (p_offset a1)
                 (n_offset a1)
               else CreateInOutPerKernel ext ci co (pixel_dists ?v1)
                 (kernel_size ?v1) (dilations ?v1) (region_type a1) (p_offset a1)
                 (n_offset a1)))
         \<and> out_maps (meta ?o1) (key ?v1)
           = Some (snd (if t1
               then CreateInOutPerKernelTranspose ext ci co (out_pixel_dists ?v1)
                 (kernel_size ?v1) (dilations ?v1) (region_type a1) (p_offset a1)
                 (n_offset a1)
               else CreateInOutPerKernel ext ci co (pixel_dists ?v1)
                 (kernel_size ?v1) (dilations ?v1) (region_type a1) (p_offset a1)
                 (n_offset a1))))"
    using macro_stores [OF r1] by blast
  have np: "(coord2inds ?md2 (pixel_dist_hash ?v2) = None) = False"
    using pix by blast
  have r2: "ret ?o2 = (if t2 \<and> coord2inds ?md2 (out_pixel_dist_hash ?v2) = None
      then Some (- 1) else None)"
    by (simp only: macro_ret np simp_thms)
  have f: "ret ?o2 \<noteq> None \<longrightarrow> meta ?o2 = ?md2"
    using macro_fail [of D ext t2 ?v2 a2 ?md2] by auto
  show ?thesis
    unfolding Let_def forward_request_def
    by (intro conjI t same_in same_out present stored r2 f h [THEN conjunct1]
        h [THEN conjunct2, THEN conjunct1] h [THEN conjunct2, THEN conjunct2])
qed

text \<open>
  C2 at the two colliding resolutions, strided, with a backward check and a global
  reduction between the two: the second operator completes, calls no kernel-map builder
  and finds the map the first one stored.
\<close>

theorem equal_keys_reuse_map_witness:
  "res_a \<noteq> res_b
   \<and> key (INITIALIZE_DEFAULT_VARS_AND_HASHES 3 sample_externs coll_a False)
     = key (INITIALIZE_DEFAULT_VARS_AND_HASHES 3 sample_externs coll_b False)
   \<and> ret (forward_request 3 sample_externs False coll_a colliding_scope) = None
   \<and> Clear \<notin> set [Backward False coll_a, Global coll_a]
   \<and> (let md1 = meta (forward_request 3 sample_externs False coll_a colliding_scope);
          md2 = run 3 sample_externs [Backward False coll_a, Global coll_a] md1;
          o2 = forward_request 3 sample_externs False coll_b md2
      in ret o2 = None
         \<and> filter is_kernel_map_builder (calls o2) = []
         \<and> in_maps (meta o2) (key (INITIALIZE_DEFAULT_VARS_AND_HASHES 3 sample_externs coll_b False))
           = in_maps md1 (key (INITIALIZE_DEFAULT_VARS_AND_HASHES 3 sample_externs coll_a False))
         \<and> in_maps md1 (key (INITIALIZE_DEFAULT_VARS_AND_HASHES 3 sample_externs coll_a False))
           \<noteq> None)"
proof -
  have ne: "res_a \<noteq> res_b"
    by (simp add: res_a_def res_b_def)
  have k: "key (INITIALIZE_DEFAULT_VARS_AND_HASHES 3 sample_externs coll_a False)
      = key (INITIALIZE_DEFAULT_VARS_AND_HASHES 3 sample_externs coll_b False)"
    by (simp add: colliding_vars)
  have r1: "ret (forward_request 3 sample_externs False coll_a colliding_scope) = None"
    by (simp add: forward_request_def macro_ret colliding_vars colliding_scope_eq)
  have es: "Clear \<notin> set [Backward False coll_a, Global coll_a]"
    by simp
  note u = equal_keys_reuse_map [OF k r1 es, unfolded Let_def]
  from u have c: "ret (forward_request 3 sample_externs False coll_b
        (run 3 sample_externs [Backward False coll_a, Global coll_a]
          (meta (forward_request 3 sample_externs False coll_a colliding_scope)))) = None"
    by simp
  note u2 = u [THEN conjunct2]
  note u5 = u2 [THEN conjunct2, THEN conjunct2, THEN conjunct2]
  note u7 = u5 [THEN conjunct2, THEN conjunct2]
  show ?thesis
    unfolding Let_def
    by (intro conjI ne k r1 es c u2 [THEN conjunct1] u5 [THEN conjunct1] u7 [THEN conjunct1])
qed

section \<open>The two maps stay paired\<close>

lemma call_paired:
  assumes "dom (in_maps md) = dom (out_maps md)"
  shows "dom (in_maps (meta (call D ext e md))) = dom (out_maps (meta (call D ext e md)))"
proof (cases e)
  case (Forward t a)
  then show ?thesis
    using assms macro_doms [of D ext t "INITIALIZE_DEFAULT_VARS_AND_HASHES D ext a t" a md]
    by (simp add: forward_request_def)
next
  case (Global a)
  then show ?thesis
    using assms global_doms [of D ext "INITIALIZE_DEFAULT_GLOBAL_VARS_AND_HASHES D a" md]
    by (simp add: global_request_def)
next
  case (Backward t a)
  then show ?thesis
    using assms by (simp add: backward_request_def backward_check_eq)
next
  case (GlobalBackward a)
  then show ?thesis
    using assms by (simp add: global_backward_request_def backward_check_eq)
next
  case (Assert nA A nB B)
  then show ?thesis
    using assms by (simp add: ASSERT_EQ_def)
next
  case Clear
  then show ?thesis
    by (simp add: clear_def)
next
  case (Register h c)
  then show ?thesis
    using assms by (simp add: register_coords_def)
qed

lemma run_paired:
  "dom (in_maps md) = dom (out_maps md) \<Longrightarrow>
   dom (in_maps (run D ext es md)) = dom (out_maps (run D ext es md))"
proof (induction es arbitrary: md)
  case Nil
  then show ?case by simp
next
  case (Cons e es)
  from Cons.prems have "dom (in_maps (meta (call D ext e md)))
      = dom (out_maps (meta (call D ext e md)))"
    by (rule call_paired)
  then have "dom (in_maps (run D ext es (meta (call D ext e md))))
      = dom (out_maps (run D ext es (meta (call D ext e md))))"
    by (rule Cons.IH)
  then show ?case by simp
qed

lemma call_fail_unchanged:
  assumes "ret (call D ext e md) = Some r"
  shows "r = - 1 \<and> meta (call D ext e md) = md"
proof (cases e)
  case (Forward t a)
  then show ?thesis
    using assms macro_fail [of D ext t "INITIALIZE_DEFAULT_VARS_AND_HASHES D ext a t" a md r]
    by (simp add: forward_request_def)
next
  case (Global a)
  then show ?thesis
    using assms global_fail [of D ext "INITIALIZE_DEFAULT_GLOBAL_VARS_AND_HASHES D a" md r]
    by (simp add: global_request_def)
next
  case (Backward t a)
  then show ?thesis
    using assms by (simp add: backward_request_def backward_check_eq split: if_splits)
next
  case (GlobalBackward a)
  then show ?thesis
    using assms by (simp add: global_backward_request_def backward_check_eq split: if_splits)
next
  case (Assert nA A nB B)
  then show ?thesis
    using assms by (simp add: ASSERT_EQ_def split: if_splits)
next
  case Clear
  then show ?thesis
    using assms by simp
next
  case (Register h c)
  then show ?thesis
    using assms by simp
qed

text \<open>
  C5. A fresh scope has no key in either map. From any scope in which \<^verbatim>\<open>in_maps\<close> and
  \<^verbatim>\<open>out_maps\<close> hold the same keys, any sequence of calls (the map macros of the
  strided, transposed and global operators, the backward checks, \<^verbatim>\<open>ASSERT_EQ\<close>,
  \<^verbatim>\<open>clear()\<close>, registrations), failing ones included, leads to a scope in which they
  hold the same keys again. A call that returns a value returns \<open>- 1\<close> and leaves the
  scope exactly as it was.
\<close>

theorem in_out_maps_stay_paired:
  "dom (in_maps (Metadata_new :: 'i::len Metadata)) = dom (out_maps (Metadata_new :: 'i Metadata))
   \<and> dom (in_maps (run D ext es (Metadata_new :: 'i Metadata)))
     = dom (out_maps (run D ext es (Metadata_new :: 'i Metadata)))
   \<and> (dom (in_maps md) = dom (out_maps md) \<longrightarrow>
       dom (in_maps (run D ext es md)) = dom (out_maps (run D ext es md)))
   \<and> (\<forall>r. ret (call D ext e md) = Some r \<longrightarrow> r = - 1 \<and> meta (call D ext e md) = md)"
proof -
  have fresh: "dom (in_maps (Metadata_new :: 'i Metadata)) = dom (out_maps (Metadata_new :: 'i Metadata))"
    by (simp add: Metadata_new_def)
  have from_fresh: "dom (in_maps (run D ext es (Metadata_new :: 'i Metadata)))
      = dom (out_maps (run D ext es (Metadata_new :: 'i Metadata)))"
    using fresh by (rule run_paired)
  have step: "dom (in_maps md) = dom (out_maps md) \<longrightarrow>
      dom (in_maps (run D ext es md)) = dom (out_maps (run D ext es md))"
    by (intro impI) (rule run_paired)
  have fail: "\<forall>r. ret (call D ext e md) = Some r \<longrightarrow> r = - 1 \<and> meta (call D ext e md) = md"
    by (intro allI impI) (rule call_fail_unchanged)
  show ?thesis
    by (intro conjI fresh from_fresh step fail)
qed

text \<open>
  C5 on \<open>sample_scope\<close>: after a transposed forward pass and a backward check, the key
  of the pass is in both maps; a backward check asked first returns \<open>- 1\<close> and changes
  nothing.
\<close>

theorem in_out_maps_stay_paired_witness:
  "dom (in_maps sample_scope) = dom (out_maps sample_scope)
   \<and> key sample_tr \<in> dom (in_maps
        (run 3 sample_externs [Forward True sample_a, Backward False sample_a] sample_scope))
   \<and> key sample_tr \<in> dom (out_maps
        (run 3 sample_externs [Forward True sample_a, Backward False sample_a] sample_scope))
   \<and> ret (call 3 sample_externs (Backward True sample_a) sample_scope) = Some (- 1)
   \<and> meta (call 3 sample_externs (Backward True sample_a) sample_scope) = sample_scope"
proof -
  let ?es = "[Forward True sample_a, Backward False sample_a]"
  have p: "dom (in_maps sample_scope) = dom (out_maps sample_scope)"
    by (simp add: sample_scope_eq)
  have run_eq: "run 3 sample_externs ?es sample_scope =
      meta (INITIALIZE_OUT_COORDS_AND_KERNEL_MAP 3 sample_externs True sample_tr sample_a
        sample_scope)"
    by (simp add: forward_request_def backward_request_def backward_check_eq sample_tr_def)
  have kin: "key sample_tr \<in> dom (in_maps (run 3 sample_externs ?es sample_scope))"
    using macro_done [OF sample_tr_ret] by (simp only: run_eq domIff) simp
  have f: "ret (call 3 sample_externs (Backward True sample_a) sample_scope) = Some (- 1)"
    using sample_tr_state(3)
    by (simp add: backward_request_def backward_check_eq sample_tr_def)
  note paired = in_out_maps_stay_paired [where D = 3 and ext = sample_externs and es = ?es
      and md = sample_scope and e = "Backward True sample_a"]
  from paired p have q: "dom (in_maps (run 3 sample_externs ?es sample_scope))
      = dom (out_maps (run 3 sample_externs ?es sample_scope))"
    by blast
  from paired f have u: "meta (call 3 sample_externs (Backward True sample_a) sample_scope)
      = sample_scope"
    by blast
  from kin have kout: "key sample_tr \<in> dom (out_maps (run 3 sample_externs ?es sample_scope))"
    by (simp only: q [symmetric])
  from p kin kout f u show ?thesis
    by (intro conjI)
qed

section \<open>The keys of the global reduction\<close>

lemma global_coords_kept:
  "coord2inds md (out_pixel_dist_hash v) \<noteq> None \<Longrightarrow>
   coord2inds (meta (INITIALIZE_GLOBAL_OUT_COORDS_AND_KERNEL_MAP D ext v md)) = coord2inds md"
  by (cases rule: global_cases [where md = md and v = v]) (simp_all add: global_eqs)

lemma global_vars_eq:
  "out_pixel_dists (INITIALIZE_DEFAULT_GLOBAL_VARS_AND_HASHES D a) = replicate D 0"
  "pixel_dist_hash (INITIALIZE_DEFAULT_GLOBAL_VARS_AND_HASHES D a)
     = hash_vec (ToArray D (p_pixel_dist a))"
  "out_pixel_dist_hash (INITIALIZE_DEFAULT_GLOBAL_VARS_AND_HASHES D (a :: 'i::len args))
     = hash_vec (replicate D 0 :: 'i Arr)"
  "key (INITIALIZE_DEFAULT_GLOBAL_VARS_AND_HASHES D (a :: 'i::len args))
     = [hash_vec (ToArray D (p_pixel_dist a)), hash_vec (replicate D 0 :: 'i Arr),
        hash_vec (replicate D 0 :: 'i Arr), hash_vec (replicate D 0 :: 'i Arr), 0]"
  by (simp_all add: INITIALIZE_DEFAULT_GLOBAL_VARS_AND_HASHES_def Let_def Arr_zero_def)

lemma vars_eq:
  "pixel_dist_hash (INITIALIZE_DEFAULT_VARS_AND_HASHES D ext b t)
     = hash_vec (ToArray D (p_pixel_dist b))"
  "key (INITIALIZE_DEFAULT_VARS_AND_HASHES D ext b t)
     = [hash_vec (ToArray D (p_pixel_dist b)), hash_vec (ToArray D (p_stride b)),
        hash_vec (ToArray D (p_kernel_size b)), hash_vec (ToArray D (p_dilation b)),
        of_bool t]"
  by (simp_all add: INITIALIZE_DEFAULT_VARS_AND_HASHES_def Let_def)

text \<open>
  C10. The global macros take their output resolution, stride, kernel size and dilation
  as value-initialised arrays: the output coordinate map is kept in \<^verbatim>\<open>coord2inds\<close>
  under \<^verbatim>\<open>hash_vec\<close> of \<open>D\<close> zeros, and the in/out map under the key made of the
  resolution hash, three times the hash of \<open>D\<close> zeros, and \<open>0\<close> for the transpose flag.
  So an operator whose resolution is all zeros has the global output map's hash as its
  resolution hash, and a map registered under it is taken as the global output map, none
  being created; and a strided operator at the same resolution with all-zero stride,
  kernel size and dilation has the global key, and after a global reduction it calls no
  kernel-map builder and finds the global in/out map.
\<close>

theorem global_keys_are_zero_tuples:
  "out_pixel_dist_hash (INITIALIZE_DEFAULT_GLOBAL_VARS_AND_HASHES D (a :: 'i::len args))
     = hash_vec (replicate D 0 :: 'i Arr)
   \<and> key (INITIALIZE_DEFAULT_GLOBAL_VARS_AND_HASHES D a)
     = [hash_vec (ToArray D (p_pixel_dist a)), hash_vec (replicate D 0 :: 'i Arr),
        hash_vec (replicate D 0 :: 'i Arr), hash_vec (replicate D 0 :: 'i Arr), 0]
   \<and> (ret (global_request D ext a md) = None \<longrightarrow>
        coord2inds (meta (global_request D ext a md)) (hash_vec (replicate D 0 :: 'i Arr)) \<noteq> None
        \<and> in_maps (meta (global_request D ext a md))
             (key (INITIALIZE_DEFAULT_GLOBAL_VARS_AND_HASHES D a)) \<noteq> None)
   \<and> (ToArray D (p_pixel_dist b) = replicate D 0 \<longrightarrow>
        pixel_dist_hash (INITIALIZE_DEFAULT_VARS_AND_HASHES D ext b t)
          = out_pixel_dist_hash (INITIALIZE_DEFAULT_GLOBAL_VARS_AND_HASHES D a))
   \<and> (coord2inds md (hash_vec (replicate D 0 :: 'i Arr)) \<noteq> None \<longrightarrow>
        coord2inds (meta (global_request D ext a md)) = coord2inds md)
   \<and> (ToArray D (p_pixel_dist b) = ToArray D (p_pixel_dist a)
        \<and> ToArray D (p_stride b) = replicate D 0
        \<and> ToArray D (p_kernel_size b) = replicate D 0
        \<and> ToArray D (p_dilation b) = replicate D 0 \<longrightarrow>
        key (INITIALIZE_DEFAULT_VARS_AND_HASHES D ext b False)
          = key (INITIALIZE_DEFAULT_GLOBAL_VARS_AND_HASHES D a)
        \<and> (ret (global_request D ext a md) = None \<longrightarrow>
             filter is_kernel_map_builder
               (calls (forward_request D ext False b (meta (global_request D ext a md)))) = []
             \<and> in_maps (meta (forward_request D ext False b (meta (global_request D ext a md))))
               = in_maps (meta (global_request D ext a md))))"
proof -
  let ?gv = "INITIALIZE_DEFAULT_GLOBAL_VARS_AND_HASHES D a"
  let ?g = "INITIALIZE_GLOBAL_OUT_COORDS_AND_KERNEL_MAP D ext ?gv md"
  let ?v = "INITIALIZE_DEFAULT_VARS_AND_HASHES D ext b False"
  have c1: "out_pixel_dist_hash ?gv = hash_vec (replicate D 0 :: 'i Arr)"
    by (rule global_vars_eq)
  have c2: "key ?gv = [hash_vec (ToArray D (p_pixel_dist a)), hash_vec (replicate D 0 :: 'i Arr),
      hash_vec (replicate D 0 :: 'i Arr), hash_vec (replicate D 0 :: 'i Arr), 0]"
    by (rule global_vars_eq)
  have c3: "ret (global_request D ext a md) = None \<longrightarrow>
      coord2inds (meta (global_request D ext a md)) (hash_vec (replicate D 0 :: 'i Arr)) \<noteq> None
      \<and> in_maps (meta (global_request D ext a md)) (key ?gv) \<noteq> None"
  proof
    assume "ret (global_request D ext a md) = None"
    then have r: "ret ?g = None" by (simp add: global_request_def)
    from global_done [OF r] show
      "coord2inds (meta (global_request D ext a md)) (hash_vec (replicate D 0 :: 'i Arr)) \<noteq> None
       \<and> in_maps (meta (global_request D ext a md)) (key ?gv) \<noteq> None"
      by (simp add: global_request_def c1)
  qed
  have c4: "ToArray D (p_pixel_dist b) = replicate D 0 \<longrightarrow>
      pixel_dist_hash (INITIALIZE_DEFAULT_VARS_AND_HASHES D ext b t) = out_pixel_dist_hash ?gv"
    by (simp add: vars_eq c1)
  have c5: "coord2inds md (hash_vec (replicate D 0 :: 'i Arr)) \<noteq> None \<longrightarrow>
      coord2inds (meta (global_request D ext a md)) = coord2inds md"
  proof
    assume "coord2inds md (hash_vec (replicate D 0 :: 'i Arr)) \<noteq> None"
    then have "coord2inds md (out_pixel_dist_hash ?gv) \<noteq> None"
      by (simp add: c1)
    then show "coord2inds (meta (global_request D ext a md)) = coord2inds md"
      unfolding global_request_def by (rule global_coords_kept)
  qed
  have c6: "ToArray D (p_pixel_dist b) = ToArray D (p_pixel_dist a)
      \<and> ToArray D (p_stride b) = replicate D 0
      \<and> ToArray D (p_kernel_size b) = replicate D 0
      \<and> ToArray D (p_dilation b) = replicate D 0 \<longrightarrow>
      key ?v = key ?gv
      \<and> (ret (global_request D ext a md) = None \<longrightarrow>
           filter is_kernel_map_builder
             (calls (forward_request D ext False b (meta (global_request D ext a md)))) = []
           \<and> in_maps (meta (forward_request D ext False b (meta (global_request D ext a md))))
             = in_maps (meta (global_request D ext a md)))"
  proof (intro impI conjI)
    assume z: "ToArray D (p_pixel_dist b) = ToArray D (p_pixel_dist a)
      \<and> ToArray D (p_stride b) = replicate D 0
      \<and> ToArray D (p_kernel_size b) = replicate D 0
      \<and> ToArray D (p_dilation b) = replicate D 0"
    then show k: "key ?v = key ?gv"
      by (simp add: vars_eq c2)
    assume "ret (global_request D ext a md) = None"
    with c3 have "in_maps (meta (global_request D ext a md)) (key ?gv) \<noteq> None"
      by blast
    then have hit: "in_maps (meta (global_request D ext a md)) (key ?v) \<noteq> None"
      by (simp add: k)
    note h = macro_hit [OF hit, of D ext False b]
    from h show "filter is_kernel_map_builder
        (calls (forward_request D ext False b (meta (global_request D ext a md)))) = []"
      by (simp add: forward_request_def)
    from h show "in_maps (meta (forward_request D ext False b (meta (global_request D ext a md))))
        = in_maps (meta (global_request D ext a md))"
      by (simp add: forward_request_def)
  qed
  show ?thesis
    by (intro conjI c1 c2 c3 c4 c5 c6)
qed

text \<open>
  C10 on \<open>sample_scope\<close>: the operator at resolution \<open>(0, 0, 0)\<close> has the global output
  hash as its resolution hash; after the global reduction at resolution \<open>(2, 2, 2)\<close> the
  strided operator with zero stride, kernel size and dilation finds the global in/out
  map, and a second global reduction takes the map registered under the zero hash.
\<close>

theorem global_keys_are_zero_tuples_witness:
  "ToArray 3 (p_pixel_dist zero_resolution) = replicate 3 0
   \<and> pixel_dist_hash (INITIALIZE_DEFAULT_VARS_AND_HASHES 3 sample_externs zero_resolution False)
     = out_pixel_dist_hash sample_gl
   \<and> key (INITIALIZE_DEFAULT_VARS_AND_HASHES 3 sample_externs zero_geometry False)
     = key sample_gl
   \<and> ret (global_request 3 sample_externs sample_a sample_scope) = None
   \<and> (let md1 = meta (global_request 3 sample_externs sample_a sample_scope)
      in coord2inds md1 (hash_vec (replicate 3 0 :: 32 word list)) \<noteq> None
         \<and> filter is_kernel_map_builder
             (calls (forward_request 3 sample_externs False zero_geometry md1)) = []
         \<and> in_maps (meta (forward_request 3 sample_externs False zero_geometry md1))
           = in_maps md1
         \<and> coord2inds (meta (global_request 3 sample_externs sample_a md1)) = coord2inds md1)"
proof -
  let ?md1 = "meta (global_request 3 sample_externs sample_a sample_scope)"
  have z: "ToArray 3 (p_pixel_dist zero_resolution) = replicate 3 0"
    by (simp add: zero_resolution_def sample_args_def ToArray_def eval_nat_numeral)
  have zg: "ToArray 3 (p_pixel_dist zero_geometry) = ToArray 3 (p_pixel_dist sample_a)
      \<and> ToArray 3 (p_stride zero_geometry) = replicate 3 0
      \<and> ToArray 3 (p_kernel_size zero_geometry) = replicate 3 0
      \<and> ToArray 3 (p_dilation zero_geometry) = replicate 3 0"
    by (simp add: zero_geometry_def sample_a_def sample_args_def ToArray_def eval_nat_numeral)
  have r: "ret (global_request 3 sample_externs sample_a sample_scope) = None"
    using sample_gl_ret by (simp add: global_request_def sample_gl_def)
  note one = global_keys_are_zero_tuples [where D = 3 and ext = sample_externs
      and a = sample_a and b = zero_resolution and md = sample_scope and t = False]
  note two = global_keys_are_zero_tuples [where D = 3 and ext = sample_externs
      and a = sample_a and b = zero_geometry and md = sample_scope and t = False]
  note three = global_keys_are_zero_tuples [where D = 3 and ext = sample_externs
      and a = sample_a and b = zero_geometry and md = ?md1 and t = False]
  from one z have c1: "pixel_dist_hash
      (INITIALIZE_DEFAULT_VARS_AND_HASHES 3 sample_externs zero_resolution False)
      = out_pixel_dist_hash sample_gl"
    unfolding sample_gl_def by blast
  from two zg have c2: "key (INITIALIZE_DEFAULT_VARS_AND_HASHES 3 sample_externs zero_geometry False)
      = key sample_gl"
    unfolding sample_gl_def by blast
  from two r have c3: "coord2inds ?md1 (hash_vec (replicate 3 0 :: 32 word list)) \<noteq> None"
    by blast
  from two zg r have c4: "filter is_kernel_map_builder
      (calls (forward_request 3 sample_externs False zero_geometry ?md1)) = []"
    by blast
  from two zg r have c5: "in_maps (meta (forward_request 3 sample_externs False zero_geometry ?md1))
      = in_maps ?md1"
    by blast
  from three c3 have c6: "coord2inds (meta (global_request 3 sample_externs sample_a ?md1))
      = coord2inds ?md1"
    by blast
  show ?thesis
    unfolding Let_def by (intro conjI z c1 c2 r c3 c4 c5 c6)
qed

end
